theory Spec2Isabelle
  imports Complex_Main "HOL-Library.Word"
begin

section \<open>Geppetto: the SubFind catalog reader and the light-cone map pipeline\<close>

text \<open>
  A shallow embedding of \<^verbatim>\<open>IO/Gadget/ReadSubFind.py\<close> (format detection, the catalog
  constructor, the particle-ID reader) and of the control flow of
  \<^verbatim>\<open>PLC/fullplcfiner.py\<close> (the divisibility check, the accretion filter, the
  per-shell histogram kept on disk).

  Conventions of the model.
  \<^item> The language is Python 3: the repository uses \<^verbatim>\<open>FileNotFoundError\<close> and
    \<^verbatim>\<open>FileExistsError\<close>, which Python 2 does not have.
  \<^item> A file system is a finite association list from paths to file contents (bytes);
    \<^verbatim>\<open>os.path.exists\<close> is membership of the path.
  \<^item> The host is little-endian: \<^verbatim>\<open>np.fromfile\<close> reads items in the host's order, so
    the value of an unswapped item is its little-endian reading. A NumPy scalar or array
    item is kept as the list of its bytes in memory; \<^verbatim>\<open>byteswap()\<close> reverses them.
  \<^item> A raised exception and a \<^verbatim>\<open>return None\<close> that reports an error are the left
    injection of a sum type. Printing is not modelled.
\<close>

subsection \<open>Errors\<close>

text \<open>
  \<open>FormatNotFoundError\<close> is the \<^verbatim>\<open>return None\<close> of \<^verbatim>\<open>guess_format\<close> after
  "ERROR: Subfind files not found" (line 99); \<open>UnrecognizedFormatError\<close> is its
  \<^verbatim>\<open>return None\<close> after "ERROR: I do not understand the format of file" (lines 143, 176,
  183); \<open>CatalogInconsistencyError\<close> is the \<^verbatim>\<open>return None\<close> of \<^verbatim>\<open>read_IDs\<close> after
  "ERROR: inconsistency in TotNgroups" (lines 446 to 452). The other constructors are
  the Python exceptions of the same names.
\<close>

datatype error =
    FormatNotFoundError
  | UnrecognizedFormatError
  | CatalogInconsistencyError
  | TypeError
  | NameError
  | UnboundLocalError
  | AttributeError
  | ValueError
  | IndexError
  | FileNotFoundError
  | ZeroDivisionError

text \<open>
  The first three are values that a function hands back to its caller (\<^verbatim>\<open>None\<close>); the
  others leave the caller as well, unless it catches them. The module has no
  \<^verbatim>\<open>try\<close> statement.
\<close>

definition returned_None :: "error \<Rightarrow> bool" where
  "returned_None e =
     (e = FormatNotFoundError \<or> e = UnrecognizedFormatError \<or> e = CatalogInconsistencyError)"

subsection \<open>Paths and the file system\<close>

type_synonym byte = "8 word"
type_synonym filesystem = "(string \<times> byte list) list"

definition exists :: "filesystem \<Rightarrow> string \<Rightarrow> bool" where
  "exists fs p = (map_of fs p \<noteq> None)"

definition digit_char :: "nat \<Rightarrow> char" where
  "digit_char d = ''0123456789'' ! d"

text \<open>\<^verbatim>\<open>"%d" % n\<close> for a natural number.\<close>

fun dec :: "nat \<Rightarrow> string" where
  "dec n = (if n < 10 then [digit_char n] else dec (n div 10) @ [digit_char (n mod 10)])"

declare dec.simps [simp del]

definition zpad :: "nat \<Rightarrow> string \<Rightarrow> string" where
  "zpad w s = replicate (w - length s) (CHR ''0'') @ s"

text \<open>\<^verbatim>\<open>"%03d" % n\<close>: zero padding to width 3, the sign counted in the width.\<close>

definition fmt_03d :: "int \<Rightarrow> string" where
  "fmt_03d n = (if 0 \<le> n then zpad 3 (dec (nat n)) else CHR ''-'' # zpad 2 (dec (nat (- n))))"

text \<open>The snapshot number "can be an integer or a string" (module docstring).\<close>

datatype snapnum = SnapInt int | SnapStr string

definition snapnum_str :: "snapnum \<Rightarrow> string" where
  "snapnum_str s = (case s of SnapInt n \<Rightarrow> fmt_03d n | SnapStr t \<Rightarrow> t)"

text \<open>Lines 63 and 64: a non-empty base directory gets a trailing slash.\<close>

definition add_slash :: "string \<Rightarrow> string" where
  "add_slash basedir = (if basedir \<noteq> [] \<and> last basedir \<noteq> CHR ''/'' then basedir @ ''/'' else basedir)"

definition legacy_tab :: "string \<Rightarrow> string \<Rightarrow> string" where
  "legacy_tab basedir snap = basedir @ ''postproc_'' @ snap @ ''/sub_tab_'' @ snap"

definition extended_tab :: "string \<Rightarrow> string \<Rightarrow> string" where
  "extended_tab basedir snap = basedir @ ''groups_'' @ snap @ ''/subhalo_tab_'' @ snap"

definition snapshot_tab :: "string \<Rightarrow> string \<Rightarrow> string" where
  "snapshot_tab basedir snap = basedir @ ''groups_'' @ snap @ ''/sub_'' @ snap"

definition group_tab :: "string \<Rightarrow> string \<Rightarrow> string" where
  "group_tab basedir snap = basedir @ ''groups_'' @ snap @ ''/group_tab_'' @ snap"

text \<open>\<^verbatim>\<open>fname + ".%d" % k\<close>: the path of segment \<open>k\<close>.\<close>

definition seg :: "string \<Rightarrow> nat \<Rightarrow> string" where
  "seg fname k = fname @ ''.'' @ dec k"

text \<open>
  Lines 104 to 108 (and 115 to 119, 148 to 152): count upwards from 0 until a segment is
  missing. \<open>count_files fs fname 0\<close> is the value of \<^verbatim>\<open>nfiles\<close> after the loop.
\<close>

function count_files :: "filesystem \<Rightarrow> string \<Rightarrow> nat \<Rightarrow> nat" where
  "count_files fs fname n = (if exists fs (seg fname n) then count_files fs fname (Suc n) else n)"
  by pat_completeness auto

lemma digit_char_inj: "d < 10 \<Longrightarrow> e < 10 \<Longrightarrow> digit_char d = digit_char e \<Longrightarrow> d = e"
proof -
  have "distinct ''0123456789''" by simp
  then show "d < 10 \<Longrightarrow> e < 10 \<Longrightarrow> digit_char d = digit_char e \<Longrightarrow> d = e"
    unfolding digit_char_def by (subst (asm) nth_eq_iff_index_eq) simp_all
qed

lemma dec_nonempty: "dec n \<noteq> []"
  by (subst dec.simps) simp

lemma dec_small: "n < 10 \<Longrightarrow> dec n = [digit_char n]"
  by (subst dec.simps) simp

lemma dec_large: "\<not> n < 10 \<Longrightarrow> dec n = dec (n div 10) @ [digit_char (n mod 10)]"
  by (subst dec.simps) simp

lemma dec_inj: "dec n = dec m \<Longrightarrow> n = m"
proof (induction n arbitrary: m rule: dec.induct)
  case (1 n)
  show ?case
  proof (cases "n < 10")
    case True
    note n = dec_small [OF True]
    show ?thesis
    proof (cases "m < 10")
      case mt: True
      from n "1.prems" dec_small [OF mt] have "digit_char n = digit_char m"
        by simp
      with True mt show ?thesis
        by (blast intro: digit_char_inj)
    next
      case False
      from n "1.prems" dec_large [OF False]
      have "[digit_char n] = dec (m div 10) @ [digit_char (m mod 10)]"
        by simp
      with dec_nonempty [of "m div 10"] show ?thesis
        by simp
    qed
  next
    case False
    note n = dec_large [OF False]
    show ?thesis
    proof (cases "m < 10")
      case True
      from n "1.prems" dec_small [OF True]
      have "dec (n div 10) @ [digit_char (n mod 10)] = [digit_char m]"
        by simp
      with dec_nonempty [of "n div 10"] show ?thesis
        by simp
    next
      case mf: False
      from n dec_large [OF mf] "1.prems"
      have e1: "dec (n div 10) = dec (m div 10)"
        and e2: "digit_char (n mod 10) = digit_char (m mod 10)"
        by simp_all
      from "1.IH" [OF False e1] have d: "n div 10 = m div 10" .
      from e2 have "n mod 10 = m mod 10"
        by (intro digit_char_inj) simp_all
      with d show ?thesis
        by (metis div_mult_mod_eq)
    qed
  qed
qed

lemma seg_inj: "seg fname j = seg fname k \<Longrightarrow> j = k"
  by (auto simp: seg_def dest: dec_inj)

lemma finite_segments: "finite {k. exists fs (seg fname k)}"
proof -
  have "{k. exists fs (seg fname k)} = seg fname -` fst ` set fs"
    by (auto simp: exists_def map_of_eq_None_iff)
  moreover have "inj (seg fname)"
    by (rule injI) (rule seg_inj)
  ultimately show ?thesis
    by (simp add: finite_vimageI)
qed

termination count_files
proof (relation "measure (\<lambda>(fs, fname, n). card {k. n \<le> k \<and> exists fs (seg fname k)})")
  show "wf (measure (\<lambda>(fs, fname, n). card {k. n \<le> k \<and> exists fs (seg fname k)}))"
    by simp
next
  fix fs :: filesystem and fname :: string and n :: nat
  assume ex: "exists fs (seg fname n)"
  let ?A = "{k. n \<le> k \<and> exists fs (seg fname k)}"
  let ?B = "{k. Suc n \<le> k \<and> exists fs (seg fname k)}"
  have fin: "finite ?A"
    by (rule finite_subset [OF _ finite_segments [of fs fname]]) auto
  have "n \<in> ?A" and "n \<notin> ?B" and "?B \<subseteq> ?A"
    using ex by auto
  then have "?B \<subset> ?A"
    by blast
  then have "card ?B < card ?A"
    by (rule psubset_card_mono [OF fin])
  then show "((fs, fname, Suc n), (fs, fname, n))
      \<in> measure (\<lambda>(fs, fname, n). card {k. n \<le> k \<and> exists fs (seg fname k)})"
    by simp
qed

declare count_files.simps [simp del]


subsection \<open>NumPy items and binary reads\<close>

text \<open>The unsigned value of an item's bytes on the little-endian host.\<close>

fun le_nat :: "byte list \<Rightarrow> nat" where
  "le_nat [] = 0"
| "le_nat (b # bs) = unat b + 256 * le_nat bs"

text \<open>The value of a \<^verbatim>\<open>np.int32\<close>: two's complement.\<close>

definition le_int32 :: "byte list \<Rightarrow> int" where
  "le_int32 bs = (let n = int (le_nat bs) in if n < 2 ^ 31 then n else n - 2 ^ 32)"

datatype dtype = Int32 | UInt32 | UInt64 | Float32 | Float32x3 | Float32x6

text \<open>Bytes per item, and bytes per scalar (the unit \<^verbatim>\<open>byteswap\<close> reverses).\<close>

fun itemsize :: "dtype \<Rightarrow> nat" where
  "itemsize Int32 = 4"
| "itemsize UInt32 = 4"
| "itemsize UInt64 = 8"
| "itemsize Float32 = 4"
| "itemsize Float32x3 = 12"
| "itemsize Float32x6 = 24"

fun scalarsize :: "dtype \<Rightarrow> nat" where
  "scalarsize UInt64 = 8"
| "scalarsize dt = 4"

text \<open>An array: its dtype and its items (rows), each the bytes it has in memory.\<close>

type_synonym ndarray = "dtype \<times> byte list list"

text \<open>An open binary file: its contents and the position of the next read.\<close>

type_synonym handle = "byte list \<times> nat"

text \<open>
  \<^verbatim>\<open>np.fromfile(f, dtype=dt, count=n)\<close>: as many whole items as the file still holds,
  at most \<open>n\<close>; a short read returns the shorter array and leaves the position at the
  end of the file.
\<close>

definition fromfile :: "handle \<Rightarrow> dtype \<Rightarrow> nat \<Rightarrow> ndarray \<times> handle" where
  "fromfile f dt n =
     (let bytes = fst f; pos = snd f; sz = itemsize dt;
          m = min n ((length bytes - pos) div sz)
      in ((dt, map (\<lambda>i. take sz (drop (pos + i * sz) bytes)) [0..<m]),
          (bytes, if m = n then pos + n * sz else max pos (length bytes))))"

definition swap_item :: "nat \<Rightarrow> byte list \<Rightarrow> byte list" where
  "swap_item w bs = concat (map (\<lambda>i. rev (take w (drop (i * w) bs))) [0..<length bs div w])"

definition byteswap :: "ndarray \<Rightarrow> ndarray" where
  "byteswap a = (fst a, map (swap_item (scalarsize (fst a))) (snd a))"

text \<open>Lines 51 to 55.\<close>

definition myswap :: "ndarray \<Rightarrow> bool \<Rightarrow> ndarray" where
  "myswap a flag = (if flag then byteswap a else a)"

text \<open>\<^verbatim>\<open>open(path, "rb")\<close>.\<close>

definition open_rb :: "filesystem \<Rightarrow> string \<Rightarrow> error + handle" where
  "open_rb fs p = (case map_of fs p of None \<Rightarrow> Inl FileNotFoundError | Some bytes \<Rightarrow> Inr (bytes, 0))"

text \<open>\<^verbatim>\<open>f.seek(k, os.SEEK_SET)\<close>.\<close>

definition seek_set :: "handle \<Rightarrow> nat \<Rightarrow> handle" where
  "seek_set f k = (fst f, k)"

text \<open>\<^verbatim>\<open>a[0]\<close> on a one-dimensional array.\<close>

definition item0 :: "ndarray \<Rightarrow> error + byte list" where
  "item0 a = (case snd a of [] \<Rightarrow> Inl IndexError | x # _ \<Rightarrow> Inr x)"

subsection \<open>Format and byte-order detection: \<^verbatim>\<open>guess_format\<close>\<close>

text \<open>
  \<^verbatim>\<open>Snapshot.Init\<close> belongs to a module that is not among the sources; the only things
  \<^verbatim>\<open>guess_format\<close> reads of its result are \<^verbatim>\<open>format\<close> and \<^verbatim>\<open>swap\<close>, so it is a
  parameter returning that pair.
\<close>

type_synonym snapshot_init = "filesystem \<Rightarrow> string \<Rightarrow> string \<Rightarrow> int \<times> bool"

text \<open>
  Lines 66 to 100: the three templates in turn. The result is the path template of the
  first one whose segment 0 exists, with its format number.
\<close>

definition probe_templates :: "filesystem \<Rightarrow> string \<Rightarrow> string \<Rightarrow> error + (string \<times> nat)" where
  "probe_templates fs basedir snap =
     (if exists fs (seg (legacy_tab basedir snap) 0) then Inr (legacy_tab basedir snap, 0)
      else if exists fs (seg (extended_tab basedir snap) 0) then Inr (extended_tab basedir snap, 1)
      else if exists fs (seg (snapshot_tab basedir snap) 0) then Inr (snapshot_tab basedir snap, 2)
      else Inl FormatNotFoundError)"

text \<open>
  Lines 123 to 125 and 156 to 158: the \<^verbatim>\<open>np.uint32\<close> at a byte offset of segment 0.
\<close>

definition read_number :: "filesystem \<Rightarrow> string \<Rightarrow> nat \<Rightarrow> error + byte list" where
  "read_number fs fname off =
     (case open_rb fs (seg fname 0) of
        Inl e \<Rightarrow> Inl e
      | Inr f \<Rightarrow> item0 (fst (fromfile (seek_set f off) UInt32 1)))"

text \<open>
  Lines 58 to 186. The result is \<^verbatim>\<open>(nfiles, myformat, swap)\<close>. In the old format
  (line 128) the unswapped number is compared with \<^verbatim>\<open>test\<close>, the number of
  \<^verbatim>\<open>group_tab\<close> files, and the swapped one (line 135) with \<^verbatim>\<open>nfiles\<close>.
\<close>

definition guess_format ::
  "snapshot_init \<Rightarrow> filesystem \<Rightarrow> string \<Rightarrow> snapnum \<Rightarrow> error + (nat \<times> nat \<times> bool)" where
  "guess_format snapshot_Init fs basedir0 snapnum0 =
     (let snap = snapnum_str snapnum0; basedir = add_slash basedir0 in
      case probe_templates fs basedir snap of
        Inl e \<Rightarrow> Inl e
      | Inr (fname, myformat) \<Rightarrow>
          let nfiles = count_files fs fname 0 in
          if myformat = 0 then
            (let test = count_files fs (group_tab basedir snap) 0 in
             case read_number fs fname 12 of
               Inl e \<Rightarrow> Inl e
             | Inr number \<Rightarrow>
                 if le_nat number = test then Inr (nfiles, 0, False)
                 else if le_nat (rev number) = nfiles then Inr (nfiles, 0, True)
                 else Inl UnrecognizedFormatError)
          else if myformat = 1 then
            (case read_number fs fname 20 of
               Inl e \<Rightarrow> Inl e
             | Inr number \<Rightarrow>
                 if le_nat number = nfiles then Inr (nfiles, 1, False)
                 else if le_nat (rev number) = nfiles then Inr (nfiles, 1, True)
                 else Inl UnrecognizedFormatError)
          else
            (let snap_obj = snapshot_Init fs (basedir @ ''groups_'' @ snap @ ''/sub'') snap in
             if fst snap_obj = - 99 then Inl UnrecognizedFormatError
             else Inr (nfiles, 2, snd snap_obj)))"


subsection \<open>The catalog object\<close>

text \<open>
  The attributes of a \<^verbatim>\<open>catalog\<close> instance. An attribute that has not been assigned is
  \<open>None\<close> (or missing from \<open>arrays\<close>). An array attribute is a list of items; an item of
  an array from \<^verbatim>\<open>np.empty\<close> that has not been written is \<open>None\<close>.
\<close>

type_synonym array = "byte list option list"

record catalog =
  myformat :: nat
  swap :: bool
  snapnum :: "string option"
  basedir :: "string option"
  Nfiles :: "nat option"
  long_IDs :: "bool option"
  id_format :: "dtype option"
  TotNgroups :: "int option"
  TotNids :: "nat option"
  TotNsubhalos :: "nat option"
  arrays :: "(string \<times> array) list"
  GroupIDs :: "byte list list option"

datatype axis = PerGroup | PerSubhalo

type_synonym field = "string \<times> axis \<times> dtype"

text \<open>
  The blocks of a segment of format 1 in the order lines 362 to 396 read them; lines 296
  to 331 allocate one array for each of the same names.
\<close>

definition extended_fields :: "dtype \<Rightarrow> bool \<Rightarrow> bool \<Rightarrow> bool \<Rightarrow> field list" where
  "extended_fields idf SaveMassTab SOVelDisp ConTermination =
     [(''HaloLen'', PerGroup, Int32),
      (''HaloMemberID'', PerGroup, Int32),
      (''HaloMass'', PerGroup, Float32),
      (''HaloPos'', PerGroup, Float32x3),
      (''Halo_M_Mean200'', PerGroup, Float32),
      (''Halo_R_Mean200'', PerGroup, Float32),
      (''Halo_M_Crit200'', PerGroup, Float32),
      (''Halo_R_Crit200'', PerGroup, Float32),
      (''Halo_M_TopHat200'', PerGroup, Float32),
      (''Halo_R_TopHat200'', PerGroup, Float32)]
     @ (if SOVelDisp
        then [(''VelDisp_Mean200'', PerGroup, Float32),
              (''VelDisp_Crit200'', PerGroup, Float32),
              (''VelDisp_TopHat200'', PerGroup, Float32)]
        else [])
     @ [(''HaloContCount'', PerGroup, Float32)]
     @ (if ConTermination then [(''HaloCont'', PerGroup, Float32)] else [])
     @ [(''NsubPerHalo'', PerGroup, Int32),
        (''FirstSubOfHalo'', PerGroup, Int32),
        (''SubLen'', PerSubhalo, Int32),
        (''SubOffset'', PerSubhalo, Int32),
        (''SubParentHalo'', PerSubhalo, Int32),
        (''SubTMass'', PerSubhalo, Float32),
        (''SubPos'', PerSubhalo, Float32x3),
        (''SubVel'', PerSubhalo, Float32x3),
        (''SubCM'', PerSubhalo, Float32x3),
        (''SubSpin'', PerSubhalo, Float32x3),
        (''SubVelDisp'', PerSubhalo, Float32),
        (''SubVmax'', PerSubhalo, Float32),
        (''SubVmaxRad'', PerSubhalo, Float32),
        (''SubHalfMass'', PerSubhalo, Float32),
        (''SubMostBoundID'', PerSubhalo, idf),
        (''SubGroupNumber'', PerSubhalo, Int32)]
     @ (if SaveMassTab then [(''SubMassTab'', PerSubhalo, Float32x6)] else [])"

text \<open>
  \<^verbatim>\<open>slice(lo, hi)\<close> applied to a sequence of length \<open>n\<close>: negative bounds count from
  the end, both are clipped, and the slice is empty when the stop is not after the start.
\<close>

definition slice_bounds :: "nat \<Rightarrow> int \<Rightarrow> int \<Rightarrow> nat \<times> nat" where
  "slice_bounds n lo hi =
     (let a = (if lo < 0 then max (lo + int n) 0 else min lo (int n));
          b = (if hi < 0 then max (hi + int n) 0 else min hi (int n))
      in (nat a, nat (max a b)))"

text \<open>
  \<^verbatim>\<open>arr[lo:hi] = v\<close> for NumPy arrays: \<open>v\<close> must have as many items as the slice, or
  exactly one (which is broadcast); otherwise NumPy raises \<^verbatim>\<open>ValueError\<close> ("could not
  broadcast input array").
\<close>

definition set_slice :: "array \<Rightarrow> int \<Rightarrow> int \<Rightarrow> byte list list \<Rightarrow> error + array" where
  "set_slice arr lo hi v =
     (let a = fst (slice_bounds (length arr) lo hi);
          b = snd (slice_bounds (length arr) lo hi)
      in if length v = b - a then Inr (take a arr @ map Some v @ drop b arr)
         else if length v = 1 then Inr (take a arr @ replicate (b - a) (Some (hd v)) @ drop b arr)
         else Inl ValueError)"

definition set_attr :: "string \<Rightarrow> array \<Rightarrow> (string \<times> array) list \<Rightarrow> (string \<times> array) list" where
  "set_attr name v arrs = map (\<lambda>p. if fst p = name then (name, v) else p) arrs"

text \<open>Arithmetic of \<^verbatim>\<open>np.int32\<close> and \<^verbatim>\<open>np.uint32\<close> scalars wraps around.\<close>

definition wrap_i32 :: "int \<Rightarrow> int" where
  "wrap_i32 x = (x + 2 ^ 31) mod 2 ^ 32 - 2 ^ 31"

definition wrap_u32 :: "int \<Rightarrow> int" where
  "wrap_u32 x = x mod 2 ^ 32"

subsection \<open>Reading one segment of format 1\<close>

record header =
  h_Ngroups :: int
  h_TotNgroups :: int
  h_Nids :: int
  h_TotNids :: nat
  h_Nfiles :: nat
  h_Nsubhalos :: nat
  h_TotNsubhalos :: nat

text \<open>Unpacking an array into three names needs exactly three items.\<close>

definition unpack3 :: "ndarray \<Rightarrow> error + (byte list \<times> byte list \<times> byte list)" where
  "unpack3 a = (case snd a of [x, y, z] \<Rightarrow> Inr (x, y, z) | _ \<Rightarrow> Inl ValueError)"

text \<open>
  Lines 253 to 255. The calls of \<^verbatim>\<open>byteswap()\<close> on lines 259 to 267 return new scalars
  that are dropped, so they change nothing.
\<close>

definition read_header :: "handle \<Rightarrow> bool \<Rightarrow> error + (header \<times> handle)" where
  "read_header f sw =
     (let r1 = fromfile f Int32 3 in
      case unpack3 (myswap (fst r1) sw) of
        Inl e \<Rightarrow> Inl e
      | Inr (ngroups, totngroups, nids) \<Rightarrow>
          let r2 = fromfile (snd r1) UInt64 1 in
          case item0 (myswap (fst r2) sw) of
            Inl e \<Rightarrow> Inl e
          | Inr totnids \<Rightarrow>
              let r3 = fromfile (snd r2) UInt32 3 in
              case unpack3 (myswap (fst r3) sw) of
                Inl e \<Rightarrow> Inl e
              | Inr (nfiles, nsubhalos, totnsubhalos) \<Rightarrow>
                  Inr (\<lparr>h_Ngroups = le_int32 ngroups, h_TotNgroups = le_int32 totngroups,
                        h_Nids = le_int32 nids, h_TotNids = le_nat totnids,
                        h_Nfiles = le_nat nfiles, h_Nsubhalos = le_nat nsubhalos,
                        h_TotNsubhalos = le_nat totnsubhalos\<rparr>, snd r3))"

text \<open>
  One line of lines 362 to 396:
  \<^verbatim>\<open>self.X[loc] = myswap(np.fromfile(f, dtype=dt, count=self.Tot...), self.swap)\<close>.
  The count is the catalog's total, \<^verbatim>\<open>self.TotNgroups\<close> or \<^verbatim>\<open>self.TotNsubhalos\<close>, for
  every segment.
\<close>

definition read_field ::
  "bool \<Rightarrow> nat \<Rightarrow> nat \<Rightarrow> int \<times> int \<Rightarrow> int \<times> int \<Rightarrow> field \<Rightarrow>
   (string \<times> array) list \<times> handle \<Rightarrow> error + ((string \<times> array) list \<times> handle)" where
  "read_field sw totG totS locG locS fld st =
     (let name = fst fld; ax = fst (snd fld); dt = snd (snd fld);
          r = fromfile (snd st) dt (case ax of PerGroup \<Rightarrow> totG | PerSubhalo \<Rightarrow> totS);
          v = myswap (fst r) sw;
          loc = (case ax of PerGroup \<Rightarrow> locG | PerSubhalo \<Rightarrow> locS)
      in case map_of (fst st) name of
           None \<Rightarrow> Inl AttributeError
         | Some arr \<Rightarrow>
             (case set_slice arr (fst loc) (snd loc) (snd v) of
                Inl e \<Rightarrow> Inl e
              | Inr arr' \<Rightarrow> Inr (set_attr name arr' (fst st), snd r)))"

fun read_fields ::
  "bool \<Rightarrow> nat \<Rightarrow> nat \<Rightarrow> int \<times> int \<Rightarrow> int \<times> int \<Rightarrow> field list \<Rightarrow>
   (string \<times> array) list \<times> handle \<Rightarrow> error + ((string \<times> array) list \<times> handle)" where
  "read_fields sw totG totS locG locS [] st = Inr st"
| "read_fields sw totG totS locG locS (fld # flds) st =
     (case read_field sw totG totS locG locS fld st of
        Inl e \<Rightarrow> Inl e
      | Inr st' \<Rightarrow> read_fields sw totG totS locG locS flds st')"

text \<open>\<^verbatim>\<open>np.empty(n, dtype=dt)\<close> for each field; a negative \<open>n\<close> raises \<^verbatim>\<open>ValueError\<close>.\<close>

definition allocate :: "int \<Rightarrow> nat \<Rightarrow> field list \<Rightarrow> error + (string \<times> array) list" where
  "allocate totG totS flds =
     (if totG < 0 then Inl ValueError
      else Inr (map (\<lambda>fld. (fst fld,
                  replicate (case fst (snd fld) of PerGroup \<Rightarrow> nat totG | PerSubhalo \<Rightarrow> totS) None))
                flds))"

text \<open>The constructor's arguments and locals that stay fixed during the loop.\<close>

record tab_config =
  cfg_fs :: filesystem
  cfg_fname :: string
  cfg_nfiles :: nat
  cfg_SaveMassTab :: bool
  cfg_SOVelDisp :: bool
  cfg_ConTermination :: bool

text \<open>The object and the locals the loop changes.\<close>

record tab_state =
  self :: catalog
  fnb :: nat
  skipS :: int
  skipG :: int

text \<open>
  Lines 252 to 400 for format 1, on the open file of segment \<open>fnb\<close>: the header, the
  totals and the allocations when \<open>fnb = 0\<close>, the blocks when \<open>Ngroups > 0\<close>, and the two
  offsets.
\<close>

definition tab_segment :: "tab_config \<Rightarrow> tab_state \<Rightarrow> handle \<Rightarrow> error + tab_state" where
  "tab_segment cfg st f =
     (case read_header f (swap (self st)) of
        Inl e \<Rightarrow> Inl e
      | Inr (h, f1) \<Rightarrow>
          let c1 = (if fnb st = 0
                    then (self st)\<lparr>TotNgroups := Some (h_TotNgroups h), TotNids := Some (h_TotNids h),
                                    TotNsubhalos := Some (h_TotNsubhalos h)\<rparr>
                    else self st);
              flds = (\<lambda>idf. extended_fields idf
                       (cfg_SaveMassTab cfg) (cfg_SOVelDisp cfg) (cfg_ConTermination cfg))
          in case (id_format c1, TotNgroups c1, TotNsubhalos c1) of
               (Some idf, Some totG, Some totS) \<Rightarrow>
                 (case (if fnb st = 0 then allocate totG totS (flds idf) else Inr (arrays c1)) of
                    Inl e \<Rightarrow> Inl e
                  | Inr arrs \<Rightarrow>
                      (case (if 0 < h_Ngroups h
                             then read_fields (swap c1) (nat totG) totS
                                    (skipG st, wrap_i32 (skipG st + h_Ngroups h))
                                    (skipS st, wrap_u32 (skipS st + int (h_Nsubhalos h)))
                                    (flds idf) (arrs, f1)
                             else Inr (arrs, f1)) of
                         Inl e \<Rightarrow> Inl e
                       | Inr (arrs', f2) \<Rightarrow>
                           Inr (st\<lparr>self := c1\<lparr>arrays := arrs'\<rparr>,
                                   skipG := wrap_i32 (skipG st + h_Ngroups h),
                                   skipS := wrap_u32 (skipS st + int (h_Nsubhalos h))\<rparr>)))
             | _ \<Rightarrow> Inl AttributeError)"

text \<open>One pass of the loop body, lines 250 to 407.\<close>

definition tab_step :: "tab_config \<Rightarrow> tab_state \<Rightarrow> error + tab_state" where
  "tab_step cfg st =
     (case open_rb (cfg_fs cfg) (seg (cfg_fname cfg) (fnb st)) of
        Inl e \<Rightarrow> Inl e
      | Inr f \<Rightarrow>
          (case tab_segment cfg st f of
             Inl e \<Rightarrow> Inl e
           | Inr st' \<Rightarrow> Inr (st'\<lparr>fnb := Suc (fnb st)\<rparr>)))"

text \<open>
  The loop of lines 249 to 408: it ends when \<^verbatim>\<open>fnb == self.Nfiles\<close> after a pass, or with
  the exception of a pass.
\<close>

function tab_loop :: "tab_config \<Rightarrow> tab_state \<Rightarrow> error + tab_state" where
  "tab_loop cfg st =
     (case tab_step cfg st of
        Inl e \<Rightarrow> Inl e
      | Inr st' \<Rightarrow> if fnb st' = cfg_nfiles cfg then Inr st' else tab_loop cfg st')"
  by pat_completeness auto

lemma tab_step_Inr:
  assumes "tab_step cfg st = Inr st'"
  shows "exists (cfg_fs cfg) (seg (cfg_fname cfg) (fnb st))" and "fnb st' = Suc (fnb st)"
  using assms
  by (auto simp: tab_step_def open_rb_def exists_def split: option.splits sum.splits)

termination tab_loop
proof (relation "measure (\<lambda>(cfg, st).
          card {k. fnb st \<le> k \<and> exists (cfg_fs cfg) (seg (cfg_fname cfg) k)})")
  show "wf (measure (\<lambda>(cfg, st).
          card {k. fnb st \<le> k \<and> exists (cfg_fs cfg) (seg (cfg_fname cfg) k)}))"
    by simp
next
  fix cfg :: tab_config and st st' :: tab_state
  assume step: "tab_step cfg st = Inr st'"
  let ?A = "{k. fnb st \<le> k \<and> exists (cfg_fs cfg) (seg (cfg_fname cfg) k)}"
  let ?B = "{k. fnb st' \<le> k \<and> exists (cfg_fs cfg) (seg (cfg_fname cfg) k)}"
  have fin: "finite ?A"
    by (rule finite_subset [OF _ finite_segments [of "cfg_fs cfg" "cfg_fname cfg"]]) auto
  have "fnb st \<in> ?A" and "fnb st \<notin> ?B" and "?B \<subseteq> ?A"
    using tab_step_Inr [OF step] by auto
  then have "?B \<subset> ?A"
    by blast
  then have "card ?B < card ?A"
    by (rule psubset_card_mono [OF fin])
  then show "((cfg, st'), (cfg, st)) \<in> measure (\<lambda>(cfg, st).
          card {k. fnb st \<le> k \<and> exists (cfg_fs cfg) (seg (cfg_fname cfg) k)})"
    by simp
qed

declare tab_loop.simps [simp del]


subsection \<open>The constructor: \<^verbatim>\<open>catalog.__init__\<close>\<close>

text \<open>The object before any attribute is assigned.\<close>

definition new_object :: "nat \<Rightarrow> bool \<Rightarrow> catalog" where
  "new_object fmt sw =
     \<lparr>myformat = fmt, swap = sw, snapnum = None, basedir = None, Nfiles = None,
      long_IDs = None, id_format = None, TotNgroups = None, TotNids = None,
      TotNsubhalos = None, arrays = [], GroupIDs = None\<rparr>"

text \<open>
  Lines 204 to 408.
  \<^item> Line 214 subscripts the result of \<^verbatim>\<open>guess_format\<close> before line 219 compares it
    with \<^verbatim>\<open>None\<close>: when \<^verbatim>\<open>guess_format\<close> has returned \<^verbatim>\<open>None\<close>, line 214 raises
    \<^verbatim>\<open>TypeError\<close>. An exception raised inside \<^verbatim>\<open>guess_format\<close> (the
    \<^verbatim>\<open>IndexError\<close> of line 125 or 158 on a segment 0 that ends before the file count)
    leaves the constructor as it is.
  \<^item> Format 2 returns on line 217 with \<^verbatim>\<open>myformat\<close> and \<^verbatim>\<open>swap\<close> assigned.
  \<^item> Format 0 reaches \<^verbatim>\<open>self.TotNids=long(0)\<close> on line 247; Python 3 has no name
    \<^verbatim>\<open>long\<close> and the module defines none, so the line raises \<^verbatim>\<open>NameError\<close>. The
    branches of the loop for format 0 are therefore never run and are not modelled.
  \<^item> The path of the segments (lines 236 to 241) is built from the \<^verbatim>\<open>basedir\<close> argument
    as given: the trailing slash that \<^verbatim>\<open>guess_format\<close> appends is local to it.
\<close>

definition catalog_init ::
  "snapshot_init \<Rightarrow> filesystem \<Rightarrow> string \<Rightarrow> snapnum \<Rightarrow> bool \<Rightarrow> bool \<Rightarrow> bool \<Rightarrow> bool \<Rightarrow>
   error + catalog" where
  "catalog_init snapshot_Init fs basedir0 snapnum0 long_ids SaveMassTab SOVelDisp ConTermination =
     (let snap = snapnum_str snapnum0 in
      case guess_format snapshot_Init fs basedir0 (SnapStr snap) of
        Inl e \<Rightarrow> if returned_None e then Inl TypeError else Inl e
      | Inr (nfiles, fmt, sw) \<Rightarrow>
          if fmt = 2 then Inr (new_object fmt sw)
          else if fmt = 0 then Inl NameError
          else
            (case tab_loop
                    \<lparr>cfg_fs = fs, cfg_fname = extended_tab basedir0 snap, cfg_nfiles = nfiles,
                     cfg_SaveMassTab = SaveMassTab, cfg_SOVelDisp = SOVelDisp,
                     cfg_ConTermination = ConTermination\<rparr>
                    \<lparr>self = (new_object fmt sw)
                       \<lparr>snapnum := Some snap, basedir := Some basedir0, Nfiles := Some nfiles,
                        long_IDs := Some long_ids,
                        id_format := Some (if long_ids then UInt64 else UInt32)\<rparr>,
                     fnb = 0, skipS = 0, skipG = 0\<rparr> of
               Inl e \<Rightarrow> Inl e
             | Inr st \<Rightarrow> Inr (self st)))"


subsection \<open>Segment files as the simulation writes them\<close>

text \<open>
  The layout of a segment of format 1, as the reader expects it: the header (three
  32-bit integers, one 64-bit integer, three 32-bit integers) followed by one block per
  field, each block holding the segment's own number of items. These definitions build
  inputs for the reader; they are not part of the repository.
\<close>

text \<open>The \<open>w\<close> bytes of a number, least significant first.\<close>

fun le_bytes :: "nat \<Rightarrow> nat \<Rightarrow> byte list" where
  "le_bytes 0 n = []"
| "le_bytes (Suc w) n = of_nat (n mod 256) # le_bytes w (n div 256)"

definition header_bytes :: "nat \<Rightarrow> nat \<Rightarrow> nat \<Rightarrow> nat \<Rightarrow> nat \<Rightarrow> nat \<Rightarrow> nat \<Rightarrow> byte list" where
  "header_bytes ngroups totngroups nids totnids nfiles nsubhalos totnsubhalos =
     le_bytes 4 ngroups @ le_bytes 4 totngroups @ le_bytes 4 nids @ le_bytes 8 totnids @
     le_bytes 4 nfiles @ le_bytes 4 nsubhalos @ le_bytes 4 totnsubhalos"

text \<open>A block is the list of its items; a file is the header and the blocks on end.\<close>

definition segment_bytes :: "byte list \<Rightarrow> byte list list list \<Rightarrow> byte list" where
  "segment_bytes hdr blocks = hdr @ concat (map concat blocks)"

text \<open>
  Synthetic blocks with pairwise different items: item \<open>i\<close> of the \<open>j\<close>-th field of a
  segment holds the number \<open>seed + 16 * j + i\<close> in each of its scalars' low bytes.
\<close>

definition synth_item :: "dtype \<Rightarrow> nat \<Rightarrow> byte list" where
  "synth_item dt v = concat (replicate (itemsize dt div scalarsize dt) (le_bytes (scalarsize dt) v))"

definition synth_blocks :: "field list \<Rightarrow> nat \<Rightarrow> nat \<Rightarrow> nat \<Rightarrow> byte list list list" where
  "synth_blocks flds ngroups nsubhalos seed =
     map (\<lambda>j. map (\<lambda>i. synth_item (snd (snd (flds ! j))) (seed + 16 * j + i))
                 [0..<(case fst (snd (flds ! j)) of PerGroup \<Rightarrow> ngroups | PerSubhalo \<Rightarrow> nsubhalos)])
         [0..<length flds]"

text \<open>
  The catalog of the end-to-end scenario: two segments in native byte order, 3 groups and
  5 subhalos in segment 0, 2 groups and 3 subhalos in segment 1, written with the default
  options (32-bit identifiers, the mass table, no velocity dispersions, no contamination
  flag).
\<close>

definition scenario_fields :: "field list" where
  "scenario_fields = extended_fields UInt32 True False False"

definition scenario_segment0 :: "byte list" where
  "scenario_segment0 = segment_bytes (header_bytes 3 5 7 11 2 5 8) (synth_blocks scenario_fields 3 5 0)"

definition scenario_segment1 :: "byte list" where
  "scenario_segment1 = segment_bytes (header_bytes 2 5 4 11 2 3 8) (synth_blocks scenario_fields 2 3 8)"

definition scenario_fs :: filesystem where
  "scenario_fs =
     [(''groups_000/subhalo_tab_000.0'', scenario_segment0),
      (''groups_000/subhalo_tab_000.1'', scenario_segment1)]"

text \<open>A stand-in for \<^verbatim>\<open>Snapshot.Init\<close> where the format is not 2 and it is never called.\<close>

definition no_snapshot :: snapshot_init where
  "no_snapshot fs path snap = (- 99, False)"

text \<open>
  The state after the first \<open>k\<close> passes of the loop, that is, after the segments
  \<open>0, \<dots>, k - 1\<close> have been processed.
\<close>

primrec tab_iter :: "tab_config \<Rightarrow> nat \<Rightarrow> tab_state \<Rightarrow> error + tab_state" where
  "tab_iter cfg 0 st = Inr st"
| "tab_iter cfg (Suc k) st =
     (case tab_iter cfg k st of Inl e \<Rightarrow> Inl e | Inr st' \<Rightarrow> tab_step cfg st')"

text \<open>The header of segment \<open>k\<close> as the loop decodes it.\<close>

definition segment_header :: "tab_config \<Rightarrow> bool \<Rightarrow> nat \<Rightarrow> header option" where
  "segment_header cfg sw k =
     (case open_rb (cfg_fs cfg) (seg (cfg_fname cfg) k) of
        Inl e \<Rightarrow> None
      | Inr f \<Rightarrow> (case read_header f sw of Inl e \<Rightarrow> None | Inr r \<Rightarrow> Some (fst r)))"

text \<open>The per-segment counts \<^verbatim>\<open>Ngroups\<close> and \<^verbatim>\<open>Nsubhalos\<close> of segment \<open>k\<close>.\<close>

definition segment_Ngroups :: "tab_config \<Rightarrow> bool \<Rightarrow> nat \<Rightarrow> int" where
  "segment_Ngroups cfg sw k = (case segment_header cfg sw k of None \<Rightarrow> 0 | Some h \<Rightarrow> h_Ngroups h)"

definition segment_Nsubhalos :: "tab_config \<Rightarrow> bool \<Rightarrow> nat \<Rightarrow> int" where
  "segment_Nsubhalos cfg sw k =
     (case segment_header cfg sw k of None \<Rightarrow> 0 | Some h \<Rightarrow> int (h_Nsubhalos h))"

text \<open>
  The configuration and the first state of the loop as the constructor sets them up for
  format 1 (lines 223 to 245).
\<close>

definition loop_config ::
  "filesystem \<Rightarrow> string \<Rightarrow> snapnum \<Rightarrow> nat \<Rightarrow> bool \<Rightarrow> bool \<Rightarrow> bool \<Rightarrow> tab_config" where
  "loop_config fs bd sn n smt sov ct =
     \<lparr>cfg_fs = fs, cfg_fname = extended_tab bd (snapnum_str sn), cfg_nfiles = n,
      cfg_SaveMassTab = smt, cfg_SOVelDisp = sov, cfg_ConTermination = ct\<rparr>"

definition loop_start :: "string \<Rightarrow> snapnum \<Rightarrow> nat \<Rightarrow> bool \<Rightarrow> bool \<Rightarrow> tab_state" where
  "loop_start bd sn n sw li =
     \<lparr>self = (new_object 1 sw)
        \<lparr>snapnum := Some (snapnum_str sn), basedir := Some bd, Nfiles := Some n,
         long_IDs := Some li, id_format := Some (if li then UInt64 else UInt32)\<rparr>,
      fnb = 0, skipS = 0, skipG = 0\<rparr>"

subsection \<open>The particle-ID reader: \<^verbatim>\<open>catalog.read_IDs\<close>\<close>

text \<open>
  Lines 417 to 420. For a format other than 0 and 1 no branch assigns \<^verbatim>\<open>fname\<close>, and
  line 424 raises \<^verbatim>\<open>UnboundLocalError\<close>.
\<close>

definition ids_fname :: "catalog \<Rightarrow> error + string" where
  "ids_fname c =
     (if myformat c = 0 then
        (case (basedir c, snapnum c) of
           (Some b, Some s) \<Rightarrow> Inr (b @ ''postproc_'' @ s @ ''/sub_ids_'' @ s @ ''.'')
         | _ \<Rightarrow> Inl AttributeError)
      else if myformat c = 1 then
        (case (basedir c, snapnum c) of
           (Some b, Some s) \<Rightarrow> Inr (b @ ''groups_'' @ s @ ''/subhalo_ids_'' @ s @ ''.'')
         | _ \<Rightarrow> Inl AttributeError)
      else Inl UnboundLocalError)"

text \<open>
  \<^verbatim>\<open>myswap\<close> has two positional parameters and no defaults (line 51). Every call in
  \<^verbatim>\<open>read_IDs\<close> passes one argument (lines 427 to 431, 468, 470): Python evaluates the
  argument, here the read of the file, and then raises \<^verbatim>\<open>TypeError\<close> before the body of
  \<^verbatim>\<open>myswap\<close> runs.
\<close>

definition myswap_one_argument :: "ndarray \<Rightarrow> error" where
  "myswap_one_argument a = TypeError"

text \<open>
  Lines 413 to 485. The result is the exception that ends the call (\<open>None\<close> for a normal
  return) and the object after the call. The first statement of the loop body after
  \<^verbatim>\<open>open\<close> is such a call of \<^verbatim>\<open>myswap\<close>, in both branches of line 426, so the
  statements after it (the comparison of the totals on lines 446 to 452, the allocation
  of \<^verbatim>\<open>GroupIDs\<close> on line 464, the copy and the offset on lines 474 and 475) are never
  reached, and the model ends where the call does.
\<close>

definition read_IDs :: "filesystem \<Rightarrow> catalog \<Rightarrow> error option \<times> catalog" where
  "read_IDs fs c =
     (case ids_fname c of
        Inl e \<Rightarrow> (Some e, c)
      | Inr fname \<Rightarrow>
          (case open_rb fs (fname @ dec 0) of
             Inl e \<Rightarrow> (Some e, c)
           | Inr f \<Rightarrow>
               (Some (myswap_one_argument
                        (fst (fromfile f Int32 (if myformat c = 1 then 3 else 4)))), c)))"

subsection \<open>More inputs for the reader\<close>

text \<open>
  A small catalog of format 1 in two segments, the first holding no group and the second
  the catalog's only group and subhalo, with a file of identifiers whose header reports 2
  groups in total where the catalog's header reports 1.
\<close>

definition late_fs :: filesystem where
  "late_fs =
     [(''groups_000/subhalo_tab_000.0'', segment_bytes (header_bytes 0 1 0 1 2 0 1) []),
      (''groups_000/subhalo_tab_000.1'',
         segment_bytes (header_bytes 1 1 1 1 2 1 1) (synth_blocks scenario_fields 1 1 0)),
      (''groups_000/subhalo_ids_000.0'',
         segment_bytes (header_bytes 1 2 1 1 2 1 1) [[le_bytes 4 100]])]"

text \<open>
  A catalog of the old format in one segment, in native byte order, with no
  \<^verbatim>\<open>group_tab\<close> file beside it: the header holds \<^verbatim>\<open>Ngroups\<close>, \<^verbatim>\<open>Nids\<close>,
  \<^verbatim>\<open>TotNgroups\<close>, \<^verbatim>\<open>Nfiles\<close> = 1 and \<^verbatim>\<open>Nsubhalos\<close>, all but the file count zero. The
  second file system holds the same file with every 32-bit item byte-swapped.
\<close>

definition legacy_header :: "byte list" where
  "legacy_header = le_bytes 4 0 @ le_bytes 4 0 @ le_bytes 4 0 @ le_bytes 4 1 @ le_bytes 4 0"

definition legacy_fs :: filesystem where
  "legacy_fs = [(''postproc_000/sub_tab_000.0'', legacy_header)]"

definition legacy_fs_swapped :: filesystem where
  "legacy_fs_swapped = [(''postproc_000/sub_tab_000.0'', swap_item 4 legacy_header)]"

text \<open>
  A directory that holds segment 0 of all three templates, one that holds the last two,
  and one that holds the last.
\<close>

definition three_fs :: filesystem where
  "three_fs =
     [(''run/postproc_007/sub_tab_007.0'', legacy_header),
      (''run/groups_007/group_tab_007.0'', []),
      (''run/groups_007/subhalo_tab_007.0'', header_bytes 0 0 0 0 1 0 0),
      (''run/groups_007/sub_007.0'', [])]"

definition two_fs :: filesystem where
  "two_fs =
     [(''run/groups_007/subhalo_tab_007.0'', header_bytes 0 0 0 0 1 0 0),
      (''run/groups_007/sub_007.0'', [])]"

definition one_fs :: filesystem where
  "one_fs = [(''run/groups_007/sub_007.0'', [])]"

text \<open>A stand-in for \<^verbatim>\<open>Snapshot.Init\<close> that recognises every snapshot as format 1, unswapped.\<close>

definition any_snapshot :: snapshot_init where
  "any_snapshot fs path snap = (1, False)"

definition sub_only_fs :: filesystem where
  "sub_only_fs = [(''groups_000/sub_000.0'', [])]"

section \<open>The light-cone map pipeline: \<^verbatim>\<open>PLC/fullplcfiner.py\<close>\<close>

text \<open>
  The script is modelled for one process of the group (its \<^verbatim>\<open>rank\<close>, the group's
  \<^verbatim>\<open>size\<close>, written \<open>nprocs\<close> below), with the operations on the communicator
  recorded in a trace. Floating-point numbers are real numbers here: the model leaves the
  rounding of arithmetic, infinities and NaN out, and writes out the two places where
  that matters (a division by zero on line 166, and the rounding of a shell's middle to
  four decimals in the name of its file). What the
  script takes from modules that are not among the sources is a field of the environment:
  the shells of \<^verbatim>\<open>cosmology\<close>, the replications of \<^verbatim>\<open>geometry\<close>, the particles of
  \<^verbatim>\<open>Timeless_Snapshot\<close> as \<^verbatim>\<open>Scatterv\<close> deals them out, the scale factor that
  \<^verbatim>\<open>builder.getCrossingScaleParameterNewtonRaphson\<close> writes for a particle, the position
  on the sky that \<^verbatim>\<open>builder.getSkyCoordinates\<close> computes, and \<^verbatim>\<open>healpy\<close>'s
  \<^verbatim>\<open>ang2pix\<close>. The second pass of the script (lines 204 to 267: halo maps and the
  convergence map) is not modelled.
\<close>

record ('p, 'r) plc_env =
  nparticles :: int
  numfiles :: nat
  npixels :: nat
  lens_planes :: "(real \<times> real) list"
  replicationsinside :: "real \<times> real \<Rightarrow> 'r list"
  scattered :: "nat \<Rightarrow> nat \<Rightarrow> 'p list"
  crossing_a :: "real \<times> real \<Rightarrow> 'r \<Rightarrow> 'p \<Rightarrow> real"
  Zacc :: "'p \<Rightarrow> real"
  sky_position :: "'r \<Rightarrow> 'p \<Rightarrow> real \<Rightarrow> real \<times> real \<times> real"
  ang2pix :: "real \<Rightarrow> real \<Rightarrow> int"

datatype mpi_op = Abort | Bcast | Scatterv | Send nat | Recv nat | Barrier

text \<open>
  The file of a shell is named with \<^verbatim>\<open>str(round(zl,4))\<close>, \<open>zl\<close> the middle of the shell
  (lines 87, 97, 195). Python's \<^verbatim>\<open>round\<close> takes \<open>zl\<close> to the nearest multiple of
  \<open>10\<^sup>-\<^sup>4\<close>, a tie to the even multiple, and keeps the sign of \<open>zl\<close> when the result is
  zero (\<^verbatim>\<open>round(-0.00001,4)\<close> is \<^verbatim>\<open>-0.0\<close>); \<^verbatim>\<open>str\<close> gives different strings for
  different numbers, and \<^verbatim>\<open>'-0.0'\<close> for the negative zero. So two shells have the same
  file exactly when their middles have the same sign and round to the same multiple. The
  key of a file is that pair.
\<close>

definition round_half_even :: "real \<Rightarrow> int" where
  "round_half_even x =
     (let n = \<lfloor>x\<rfloor>; r = x - of_int n in
      if r < 1 / 2 then n else if 1 / 2 < r then n + 1 else if even n then n else n + 1)"

type_synonym file_key = "bool \<times> int"

definition shell_key :: "real \<times> real \<Rightarrow> file_key" where
  "shell_key sh = (let zl = (fst sh + snd sh) / 2 in (zl < 0, round_half_even (zl * 10000)))"

text \<open>
  What a process has done: the maps on disk, by the key of their file name, and the
  operations on the communicator so far.
\<close>

record world =
  disk :: "file_key \<Rightarrow> real list option"
  trace :: "mpi_op list"

text \<open>
  Line 166: \<^verbatim>\<open>aplcslice[ 1.0/aplcslice -1  < Zaccslice ] = -1.0\<close>, for one particle. NumPy
  divides 1.0 by 0.0 to infinity, which is not less than any accretion redshift. The
  first function is the crossing redshift the line computes.
\<close>

definition crossing_redshift :: "real \<Rightarrow> real option" where
  "crossing_redshift a = (if a = 0 then None else Some (1 / a - 1))"

definition mask_accretion :: "real \<Rightarrow> real \<Rightarrow> real" where
  "mask_accretion a zacc =
     (case crossing_redshift a of None \<Rightarrow> a | Some z \<Rightarrow> if z < zacc then - 1 else a)"

text \<open>
  Modelled from the spec: \<^verbatim>\<open>builder.getSkyCoordinates\<close> is not among the sources. The
  spec (4.3, sky coordinate mapping) has it convert a converged scale factor to a radial
  distance and two angles, "returning a sentinel-flagged triple consistent with the
  crossing result", the sentinel being a negative scale factor and a negative distance
  (9, sentinel-value error signaling). The conversion itself is the environment's
  \<open>sky_position\<close>.
\<close>

definition getSkyCoordinates ::
  "('p \<Rightarrow> real \<Rightarrow> real \<times> real \<times> real) \<Rightarrow> 'p \<Rightarrow> real \<Rightarrow> real \<times> real \<times> real" where
  "getSkyCoordinates position p a = (if a < 0 then (- 1, - 1, - 1) else position p a)"

text \<open>
  Lines 159 to 168 on one process: the sky coordinates of its particles for one
  replication of one shell.
\<close>

definition worker_skycoords ::
  "('p, 'r) plc_env \<Rightarrow> real \<times> real \<Rightarrow> 'r \<Rightarrow> 'p list \<Rightarrow> (real \<times> real \<times> real) list" where
  "worker_skycoords env sh rep ps =
     map (\<lambda>p. getSkyCoordinates (sky_position env rep) p
                (mask_accretion (crossing_a env sh rep p) (Zacc env p))) ps"

text \<open>
  \<^verbatim>\<open>np.histogram(pixels, bins=[0, 1, ..., npixels])[0]\<close>: bin \<open>i\<close> counts the values in
  \<open>[i, i + 1)\<close>, the last bin those in \<open>[npixels - 1, npixels]\<close>; other values are not
  counted.
\<close>

definition in_bin :: "nat \<Rightarrow> nat \<Rightarrow> int \<Rightarrow> bool" where
  "in_bin npix i x = (int i \<le> x \<and> (x < int i + 1 \<or> (Suc i = npix \<and> x = int npix)))"

definition histogram :: "nat \<Rightarrow> int list \<Rightarrow> nat list" where
  "histogram npix pixels = map (\<lambda>i. length (filter (in_bin npix i) pixels)) [0..<npix]"

text \<open>
  \<^verbatim>\<open>deltai += counts\<close>: in place, so the counts must have the length of the map, or
  length 1.
\<close>

definition add_counts :: "real list \<Rightarrow> nat list \<Rightarrow> error + real list" where
  "add_counts deltai counts =
     (if length counts = length deltai then Inr (map2 (\<lambda>d c. d + real c) deltai counts)
      else if length counts = 1 then Inr (map (\<lambda>d. d + real (hd counts)) deltai)
      else Inl ValueError)"

text \<open>Lines 185 to 189: the collector folds one slice of sky coordinates into the map.\<close>

definition collect_slice ::
  "nat \<Rightarrow> (real \<Rightarrow> real \<Rightarrow> int) \<Rightarrow> (real \<times> real \<times> real) list \<Rightarrow> real list \<Rightarrow> error + real list" where
  "collect_slice npix a2p skycoordslice deltai =
     add_counts deltai
       (histogram npix
          (map (\<lambda>c. a2p (fst (snd c) + pi / 2) (snd (snd c)))
               (filter (\<lambda>c. 0 < fst c) skycoordslice)))"

text \<open>A loop whose body may raise.\<close>

fun fold_err :: "('a \<Rightarrow> 's \<Rightarrow> error + 's) \<Rightarrow> 'a list \<Rightarrow> 's \<Rightarrow> error + 's" where
  "fold_err f [] s = Inr s"
| "fold_err f (x # xs) s = (case f x s of Inl e \<Rightarrow> Inl e | Inr s' \<Rightarrow> fold_err f xs s')"

text \<open>
  Lines 171 to 191, one pass of the loop over \<^verbatim>\<open>ranki\<close>: the process \<^verbatim>\<open>ranki\<close> sends its
  slice, the collector receives it (or takes its own) and adds its histogram, and every
  process waits at the barrier. The state is the collector's map and the trace.
\<close>

definition rank_step ::
  "('p, 'r) plc_env \<Rightarrow> nat \<Rightarrow> nat \<Rightarrow> nat \<Rightarrow> real \<times> real \<Rightarrow> 'r \<Rightarrow> nat \<Rightarrow>
   real list \<times> mpi_op list \<Rightarrow> error + (real list \<times> mpi_op list)" where
  "rank_step env nprocs rank sn sh rep ranki st =
     (let tr1 = snd st @ (if rank = ranki \<and> 0 < ranki then [Send 0] else []) in
      if rank = 0 then
        (case collect_slice (npixels env) (ang2pix env)
                (worker_skycoords env sh rep (scattered env sn ranki)) (fst st) of
           Inl e \<Rightarrow> Inl e
         | Inr deltai \<Rightarrow> Inr (deltai, tr1 @ (if 0 < ranki then [Recv ranki] else []) @ [Barrier]))
      else Inr (fst st, tr1 @ [Barrier]))"

text \<open>Lines 148 to 191: the replications of a shell, each reduced over all processes.\<close>

definition accumulate_shell ::
  "('p, 'r) plc_env \<Rightarrow> nat \<Rightarrow> nat \<Rightarrow> nat \<Rightarrow> real \<times> real \<Rightarrow>
   real list \<times> mpi_op list \<Rightarrow> error + (real list \<times> mpi_op list)" where
  "accumulate_shell env nprocs rank sn sh st =
     fold_err (\<lambda>rep. fold_err (rank_step env nprocs rank sn sh rep) [0..<nprocs])
       (replicationsinside env sh) st"

text \<open>
  Lines 92 to 97 on the collector: the zero map for the first snapshot, else the map read
  from the shell's file.
\<close>

definition initial_map ::
  "nat \<Rightarrow> nat \<Rightarrow> real \<times> real \<Rightarrow> (file_key \<Rightarrow> real list option) \<Rightarrow> error + real list" where
  "initial_map npix sn sh d =
     (if sn = 0 then Inr (replicate npix 0)
      else (case d (shell_key sh) of None \<Rightarrow> Inl FileNotFoundError | Some m \<Rightarrow> Inr m))"

text \<open>
  Lines 85 to 199 for one shell: the collector starts its map, all processes go through
  the replications, the collector writes the map over the shell's file, and all wait at
  the barrier. A process other than the collector has no map.
\<close>

definition process_shell ::
  "('p, 'r) plc_env \<Rightarrow> nat \<Rightarrow> nat \<Rightarrow> nat \<Rightarrow> real \<times> real \<Rightarrow> world \<Rightarrow> error + world" where
  "process_shell env nprocs rank sn sh w =
     (case (if rank = 0 then initial_map (npixels env) sn sh (disk w) else Inr []) of
        Inl e \<Rightarrow> Inl e
      | Inr deltai \<Rightarrow>
          (case accumulate_shell env nprocs rank sn sh (deltai, trace w) of
             Inl e \<Rightarrow> Inl e
           | Inr st \<Rightarrow>
               Inr \<lparr>disk = (if rank = 0 then (disk w)(shell_key sh \<mapsto> fst st) else disk w),
                    trace = snd st @ [Barrier]\<rparr>))"

text \<open>
  Lines 29 to 199 for one snapshot file: the geometry and the particle number are
  broadcast, the six particle arrays are scattered, and the shells are processed in order.
\<close>

definition process_snapshot ::
  "('p, 'r) plc_env \<Rightarrow> nat \<Rightarrow> nat \<Rightarrow> nat \<Rightarrow> world \<Rightarrow> error + world" where
  "process_snapshot env nprocs rank sn w =
     fold_err (process_shell env nprocs rank sn) (lens_planes env)
       (w\<lparr>trace := trace w @ [Bcast, Bcast, Scatterv, Scatterv, Scatterv, Scatterv, Scatterv, Scatterv]\<rparr>)"

text \<open>
  Lines 22 to 199. \<^verbatim>\<open>comm.Abort()\<close> ends every process of the group, so an aborted run
  is the world as it is then, with \<open>Abort\<close> the last operation of the trace. A group has
  at least one process; the remainder by a size of zero would raise
  \<^verbatim>\<open>ZeroDivisionError\<close>.
\<close>

definition pipeline :: "('p, 'r) plc_env \<Rightarrow> nat \<Rightarrow> nat \<Rightarrow> world \<Rightarrow> error + world" where
  "pipeline env nprocs rank w =
     (if nprocs = 0 then Inl ZeroDivisionError
      else if nparticles env mod int nprocs \<noteq> 0 then Inr (w\<lparr>trace := trace w @ [Abort]\<rparr>)
      else fold_err (process_snapshot env nprocs rank) [0..<numfiles env] w)"

text \<open>The world after the snapshots \<open>0, \<dots>, k - 1\<close>.\<close>

definition after_snapshots :: "('p, 'r) plc_env \<Rightarrow> nat \<Rightarrow> nat \<Rightarrow> nat \<Rightarrow> world \<Rightarrow> error + world" where
  "after_snapshots env nprocs rank k w = fold_err (process_snapshot env nprocs rank) [0..<k] w"


subsection \<open>Inputs for the pipeline\<close>

text \<open>
  Two processes, two snapshot files of two particles each (the particles are numbered), a
  map of four pixels and two shells with one replication each. Every particle crosses
  the first shell at scale factor 1/4 (redshift 3) and misses the second; particle 1 has
  accretion redshift 5, the others 0. A particle that is kept lies in the pixel of its
  number.
\<close>

definition demo_env :: "(nat, unit) plc_env" where
  "demo_env =
     \<lparr>nparticles = 4, numfiles = 2, npixels = 4,
      lens_planes = [(0, 1 / 2), (1 / 2, 1)],
      replicationsinside = (\<lambda>sh. [()]),
      scattered = (\<lambda>sn r. if r = 0 then [0, 1] else if r = 1 then [2, 3] else []),
      crossing_a = (\<lambda>sh rep p. if sh = (0, 1 / 2) then 1 / 4 else - 1),
      Zacc = (\<lambda>p. if p = 1 then 5 else 0),
      sky_position = (\<lambda>rep p a. (1, real p, 0)),
      ang2pix = (\<lambda>theta phi. \<lfloor>theta - pi / 2\<rfloor>)\<rparr>"

definition empty_world :: world where
  "empty_world = \<lparr>disk = (\<lambda>k. None), trace = []\<rparr>"





text \<open>
  Two shells with the middles 0.03125, half way between 0.0312 and 0.0313, and 0.0312.
\<close>

definition tie_shell_a :: "real \<times> real" where
  "tie_shell_a = (3124 / 100000, 3126 / 100000)"

definition tie_shell_b :: "real \<times> real" where
  "tie_shell_b = (3118 / 100000, 3122 / 100000)"

section \<open>Properties of the catalog reader\<close>

subsection \<open>Binary reads\<close>


lemma fromfile_count:
  "length (snd (fst (fromfile f dt n))) = min n ((length (fst f) - snd f) div itemsize dt)"
  by (simp add: fromfile_def Let_def)

lemma itemsize_pos: "0 < itemsize dt"
  by (cases dt) simp_all

lemma fromfile_item_length:
  assumes "x \<in> set (snd (fst (fromfile f dt n)))"
  shows "length x = itemsize dt"
proof -
  let ?sz = "itemsize dt" and ?bytes = "fst f" and ?pos = "snd f"
  from assms obtain i where i: "i < (length ?bytes - ?pos) div ?sz"
    and x: "x = take ?sz (drop (?pos + i * ?sz) ?bytes)"
    by (auto simp: fromfile_def Let_def)
  from i have "Suc i \<le> (length ?bytes - ?pos) div ?sz" by simp
  then have "Suc i * ?sz \<le> length ?bytes - ?pos"
    using itemsize_pos [of dt] by (simp add: less_eq_div_iff_mult_less_eq)
  then have "?sz + i * ?sz \<le> length ?bytes - ?pos"
    by simp
  then have "?pos + i * ?sz + ?sz \<le> length ?bytes"
    using itemsize_pos [of dt] by arith
  with x show ?thesis by simp
qed

lemma fromfile_handle:
  "length (snd (fst (fromfile f dt n))) = n \<Longrightarrow> snd (fromfile f dt n) = (fst f, snd f + n * itemsize dt)"
  by (auto simp: fromfile_def Let_def)

lemma fromfile_full:
  assumes "snd f + n * itemsize dt \<le> length (fst f)"
  shows "length (snd (fst (fromfile f dt n))) = n"
proof -
  from assms have "n * itemsize dt \<le> length (fst f) - snd f" by simp
  then have "n \<le> (length (fst f) - snd f) div itemsize dt"
    using itemsize_pos [of dt] by (simp add: less_eq_div_iff_mult_less_eq)
  then show ?thesis by (simp add: fromfile_count)
qed

lemma swap_item_whole: "length x = w \<Longrightarrow> 0 < w \<Longrightarrow> swap_item w x = rev x"
  by (simp add: swap_item_def)

lemma myswap_length: "length (snd (myswap a sw)) = length (snd a)"
  by (simp add: myswap_def byteswap_def)

lemma myswap_fst: "fst (myswap a sw) = fst a"
  by (simp add: myswap_def byteswap_def)

lemma le_nat_bound: "le_nat bs < 256 ^ length bs"
proof (induction bs)
  case Nil then show ?case by simp
next
  case (Cons b bs)
  have "unat b < 256" using unsigned_less [of b, where 'a = nat] by simp
  with Cons show ?case by simp
qed

lemma le_int32_range: "length bs = 4 \<Longrightarrow> - (2 ^ 31) \<le> le_int32 bs \<and> le_int32 bs < 2 ^ 31"
  using le_nat_bound [of bs] by (auto simp: le_int32_def Let_def)

lemma unpack3_Inr: "unpack3 a = Inr (x, y, z) \<Longrightarrow> snd a = [x, y, z]"
  by (auto simp: unpack3_def split: list.splits)

lemma item0_Inr: "item0 a = Inr x \<Longrightarrow> x \<in> set (snd a)"
  by (auto simp: item0_def split: list.splits)


lemma myswap_snd_length: "snd (myswap a sw) = xs \<Longrightarrow> length (snd a) = length xs"
  using myswap_length [of a sw] by simp

lemma read_header_InrD:
  assumes "read_header f sw = Inr (h, f1)"
  shows "\<exists>a b c d e g k.
      snd (myswap (fst (fromfile f Int32 3)) sw) = [a, b, c] \<and>
      d \<in> set (snd (myswap (fst (fromfile (snd (fromfile f Int32 3)) UInt64 1)) sw)) \<and>
      snd (myswap (fst (fromfile (snd (fromfile (snd (fromfile f Int32 3)) UInt64 1)) UInt32 3)) sw)
        = [e, g, k] \<and>
      h = \<lparr>h_Ngroups = le_int32 a, h_TotNgroups = le_int32 b, h_Nids = le_int32 c,
           h_TotNids = le_nat d, h_Nfiles = le_nat e, h_Nsubhalos = le_nat g,
           h_TotNsubhalos = le_nat k\<rparr> \<and>
      f1 = snd (fromfile (snd (fromfile (snd (fromfile f Int32 3)) UInt64 1)) UInt32 3)"
proof -
  let ?r1 = "fromfile f Int32 3"
  let ?r2 = "fromfile (snd ?r1) UInt64 1"
  let ?r3 = "fromfile (snd ?r2) UInt32 3"
  from assms obtain a b c where u1: "unpack3 (myswap (fst ?r1) sw) = Inr (a, b, c)"
    unfolding read_header_def Let_def by (cases "unpack3 (myswap (fst ?r1) sw)") auto
  from assms u1 obtain d where u2: "item0 (myswap (fst ?r2) sw) = Inr d"
    unfolding read_header_def Let_def by (cases "item0 (myswap (fst ?r2) sw)") auto
  from assms u1 u2 obtain e g k where u3: "unpack3 (myswap (fst ?r3) sw) = Inr (e, g, k)"
    unfolding read_header_def Let_def by (cases "unpack3 (myswap (fst ?r3) sw)") auto
  from assms u1 u2 u3 have "h = \<lparr>h_Ngroups = le_int32 a, h_TotNgroups = le_int32 b, h_Nids = le_int32 c,
           h_TotNids = le_nat d, h_Nfiles = le_nat e, h_Nsubhalos = le_nat g,
           h_TotNsubhalos = le_nat k\<rparr>" and "f1 = snd ?r3"
    unfolding read_header_def Let_def by simp_all
  with unpack3_Inr [OF u1] item0_Inr [OF u2] unpack3_Inr [OF u3] show ?thesis
    by blast
qed

lemma read_header_handle:
  assumes "read_header (bytes, 0) sw = Inr (h, f1)"
  shows "f1 = (bytes, 32)"
proof -
  let ?r1 = "fromfile (bytes, 0) Int32 3"
  let ?r2 = "fromfile (snd ?r1) UInt64 1"
  let ?r3 = "fromfile (snd ?r2) UInt32 3"
  from read_header_InrD [OF assms] obtain a b c d e g k where
    s1: "snd (myswap (fst ?r1) sw) = [a, b, c]" and
    s2: "d \<in> set (snd (myswap (fst ?r2) sw))" and
    s3: "snd (myswap (fst ?r3) sw) = [e, g, k]" and
    f1: "f1 = snd ?r3"
    by blast
  from myswap_snd_length [OF s1] have "length (snd (fst ?r1)) = 3" by simp
  from fromfile_handle [OF this] have h1: "snd ?r1 = (bytes, 12)" by simp
  from s2 have "length (snd (myswap (fst ?r2) sw)) \<noteq> 0" by auto
  then have "length (snd (fst ?r2)) \<noteq> 0" by (simp add: myswap_length)
  moreover have "length (snd (fst ?r2)) \<le> 1" by (simp add: fromfile_count)
  ultimately have "length (snd (fst ?r2)) = 1" by (simp add: le_Suc_eq)
  from fromfile_handle [OF this] h1 have h2: "snd ?r2 = (bytes, 20)" by simp
  from myswap_snd_length [OF s3] have "length (snd (fst ?r3)) = 3" by simp
  from fromfile_handle [OF this] h2 have "snd ?r3 = (bytes, 32)" by simp
  with f1 show ?thesis by simp
qed

lemma myswap_item_length:
  assumes "x \<in> set (snd (myswap (fst (fromfile f dt n)) sw))" and "scalarsize dt = itemsize dt"
  shows "length x = itemsize dt"
proof (cases sw)
  case False
  with assms(1) show ?thesis
    by (simp add: myswap_def fromfile_item_length)
next
  case True
  have dt: "fst (fst (fromfile f dt n)) = dt"
    by (simp add: fromfile_def Let_def)
  from True assms(1) dt obtain y where y: "y \<in> set (snd (fst (fromfile f dt n)))"
    and x: "x = swap_item (scalarsize dt) y"
    by (auto simp: myswap_def byteswap_def)
  from fromfile_item_length [OF y] have "length y = itemsize dt" .
  with x assms(2) itemsize_pos [of dt] show ?thesis
    by (simp add: swap_item_whole)
qed

lemma read_header_ranges:
  assumes "read_header f sw = Inr (h, f1)"
  shows "- (2 ^ 31) \<le> h_Ngroups h \<and> h_Ngroups h < 2 ^ 31 \<and>
         - (2 ^ 31) \<le> h_TotNgroups h \<and> h_TotNgroups h < 2 ^ 31 \<and>
         h_Nsubhalos h < 2 ^ 32 \<and> h_TotNsubhalos h < 2 ^ 32"
proof -
  let ?r1 = "fromfile f Int32 3"
  let ?r2 = "fromfile (snd ?r1) UInt64 1"
  let ?r3 = "fromfile (snd ?r2) UInt32 3"
  from read_header_InrD [OF assms] obtain a b c d e g k where
    s1: "snd (myswap (fst ?r1) sw) = [a, b, c]" and
    s3: "snd (myswap (fst ?r3) sw) = [e, g, k]" and
    h: "h = \<lparr>h_Ngroups = le_int32 a, h_TotNgroups = le_int32 b, h_Nids = le_int32 c,
           h_TotNids = le_nat d, h_Nfiles = le_nat e, h_Nsubhalos = le_nat g,
           h_TotNsubhalos = le_nat k\<rparr>"
    by blast
  have len: "length x = itemsize dt"
    if "x \<in> set (snd (myswap (fst (fromfile f' dt n)) sw))" and "scalarsize dt = itemsize dt"
    for x f' dt n
    using that by (rule myswap_item_length)
  have "length a = 4" "length b = 4"
    using len [of a f Int32 3] len [of b f Int32 3] s1 by simp_all
  moreover have "length g = 4" "length k = 4"
    using len [of g "snd ?r2" UInt32 3] len [of k "snd ?r2" UInt32 3] s3 by simp_all
  ultimately show ?thesis
    using le_int32_range [of a] le_int32_range [of b] le_nat_bound [of g] le_nat_bound [of k] h
    by simp
qed


lemma guess_format_SnapStr:
  "guess_format SI fs bd (SnapStr (snapnum_str sn)) = guess_format SI fs bd sn"
  by (simp add: guess_format_def snapnum_str_def)

lemma wrap_i32_id: "- (2 ^ 31) \<le> x \<Longrightarrow> x < 2 ^ 31 \<Longrightarrow> wrap_i32 x = x"
  by (simp add: wrap_i32_def)

lemma wrap_u32_id: "0 \<le> x \<Longrightarrow> x < 2 ^ 32 \<Longrightarrow> wrap_u32 x = x"
  by (simp add: wrap_u32_def)

lemma slice_bounds_inside:
  "0 \<le> lo \<Longrightarrow> lo \<le> hi \<Longrightarrow> hi \<le> int n \<Longrightarrow> slice_bounds n lo hi = (nat lo, nat hi)"
  by (simp add: slice_bounds_def Let_def)

lemma set_slice_mismatch:
  assumes "0 \<le> lo" "lo \<le> hi" "hi \<le> int (length arr)"
    and "length v \<noteq> nat hi - nat lo" "length v \<noteq> 1"
  shows "set_slice arr lo hi v = Inl ValueError"
  using assms by (simp add: set_slice_def slice_bounds_inside Let_def)

lemma extended_fields_head:
  "extended_fields idf a b c = (''HaloLen'', PerGroup, Int32) # tl (extended_fields idf a b c)"
  by (simp add: extended_fields_def)

lemma read_field_HaloLen_mismatch:
  assumes arr: "map_of arrs ''HaloLen'' = Some arr" and la: "length arr = totG"
    and room: "pos + 4 * totG \<le> length bytes"
    and lo: "0 \<le> lo" "lo \<le> hi" "hi \<le> int totG"
    and ne: "totG \<noteq> nat hi - nat lo" "totG \<noteq> 1"
  shows "read_field sw totG totS (lo, hi) locS (''HaloLen'', PerGroup, Int32) (arrs, (bytes, pos))
         = Inl ValueError"
proof -
  have "length (snd (fst (fromfile (bytes, pos) Int32 totG))) = totG"
    using room by (intro fromfile_full) simp
  then have "length (snd (myswap (fst (fromfile (bytes, pos) Int32 totG)) sw)) = totG"
    by (simp add: myswap_length)
  with lo ne la have "set_slice arr lo hi (snd (myswap (fst (fromfile (bytes, pos) Int32 totG)) sw))
      = Inl ValueError"
    by (intro set_slice_mismatch) simp_all
  with arr show ?thesis
    by (simp add: read_field_def Let_def)
qed

subsection \<open>Segments that hold a part of the groups\<close>

text \<open>
  Claim C1 expects a catalog of format 1 in two segments (3 groups and 5 subhalos, then
  2 groups and 3 subhalos) to be read into arrays of 5 and 8 items that hold the blocks
  of the files. The constructor does not get that far. Every block of a segment is read
  with \<^verbatim>\<open>count=self.TotNgroups\<close> or \<^verbatim>\<open>count=self.TotNsubhalos\<close>, the catalog's
  totals, and assigned to a slice as long as the segment's own count. So whenever
  segment 0 of a catalog of format 1 holds some of the groups but not all of them
  (\<open>0 < Ngroups < TotNgroups\<close>) and its file is long enough for the first read, the
  first block, \<^verbatim>\<open>HaloLen\<close>, comes back with \<open>TotNgroups\<close> items for a slice of
  \<open>Ngroups\<close>, and the constructor raises \<^verbatim>\<open>ValueError\<close>.
\<close>

theorem catalog_init_rejects_split_groups:
  assumes gf: "guess_format SI fs bd sn = Inr (nfiles, 1, sw)"
    and fl: "map_of fs (seg (extended_tab bd (snapnum_str sn)) 0) = Some bytes"
    and hdr: "read_header (bytes, 0) sw = Inr (h, f1)"
    and ng: "0 < h_Ngroups h" "h_Ngroups h < h_TotNgroups h"
    and len: "32 + 4 * nat (h_TotNgroups h) \<le> length bytes"
  shows "catalog_init SI fs bd sn li smt sov ct = Inl ValueError"
proof -
  define cfg where "cfg = \<lparr>cfg_fs = fs, cfg_fname = extended_tab bd (snapnum_str sn),
      cfg_nfiles = nfiles, cfg_SaveMassTab = smt, cfg_SOVelDisp = sov, cfg_ConTermination = ct\<rparr>"
  define st where "st = \<lparr>self = (new_object 1 sw)
      \<lparr>snapnum := Some (snapnum_str sn), basedir := Some bd, Nfiles := Some nfiles,
       long_IDs := Some li, id_format := Some (if li then UInt64 else UInt32)\<rparr>,
      fnb = 0, skipS = 0, skipG = 0\<rparr>"
  let ?totG = "h_TotNgroups h"
  let ?flds = "extended_fields (if li then UInt64 else UInt32) smt sov ct"
  from read_header_handle [OF hdr] have f1: "f1 = (bytes, 32)" .
  from read_header_ranges [OF hdr] have rng: "- (2 ^ 31) \<le> h_Ngroups h" "h_Ngroups h < 2 ^ 31"
    by simp_all
  define arrs :: "(string \<times> array) list" where "arrs = map (\<lambda>fld. (fst fld,
      replicate (case fst (snd fld) of PerGroup \<Rightarrow> nat ?totG | PerSubhalo \<Rightarrow> h_TotNsubhalos h) None))
      ?flds"
  have al: "allocate ?totG (h_TotNsubhalos h) ?flds = Inr arrs"
    using ng by (simp add: allocate_def arrs_def)
  have arr: "map_of arrs ''HaloLen'' = Some (replicate (nat ?totG) None)"
    unfolding arrs_def by (subst extended_fields_head) simp
  have "read_field sw (nat ?totG) (h_TotNsubhalos h) (0, wrap_i32 (0 + h_Ngroups h))
          (0, wrap_u32 (0 + int (h_Nsubhalos h))) (''HaloLen'', PerGroup, Int32) (arrs, (bytes, 32))
        = Inl ValueError"
  proof (rule read_field_HaloLen_mismatch [OF arr])
    show "length (replicate (nat ?totG) (None :: byte list option)) = nat ?totG"
      by simp
    show "32 + 4 * nat ?totG \<le> length bytes"
      by (fact len)
    show "(0::int) \<le> 0"
      by simp
    show "0 \<le> wrap_i32 (0 + h_Ngroups h)" and "wrap_i32 (0 + h_Ngroups h) \<le> int (nat ?totG)"
      and "nat ?totG \<noteq> nat (wrap_i32 (0 + h_Ngroups h)) - nat 0"
      using ng rng by (simp_all add: wrap_i32_id)
    show "nat ?totG \<noteq> 1"
      using ng by simp
  qed
  then have rf: "read_fields sw (nat ?totG) (h_TotNsubhalos h) (0, wrap_i32 (0 + h_Ngroups h))
          (0, wrap_u32 (0 + int (h_Nsubhalos h))) ?flds (arrs, (bytes, 32)) = Inl ValueError"
    by (subst extended_fields_head) simp
  have "tab_segment cfg st (bytes, 0) = Inl ValueError"
    using hdr f1 al rf ng(1)
    by (simp add: tab_segment_def cfg_def st_def new_object_def Let_def)
  then have "tab_step cfg st = Inl ValueError"
    using fl by (simp add: tab_step_def open_rb_def cfg_def st_def)
  then have "tab_loop cfg st = Inl ValueError"
    by (subst tab_loop.simps) simp
  then show ?thesis
    using gf by (simp add: catalog_init_def guess_format_SnapStr Let_def cfg_def st_def)
qed

text \<open>
  The catalog of the scenario is such a catalog: its format is detected (2 files, format
  1, native order), the header of segment 0 reads 3 of 5 groups and 5 of 8 subhalos, and
  the constructor raises \<^verbatim>\<open>ValueError\<close>.
\<close>

lemma scenario_facts:
  "guess_format no_snapshot scenario_fs [] (SnapStr ''000'') = Inr (2, 1, False)"
  "map_of scenario_fs (seg (extended_tab [] (snapnum_str (SnapStr ''000''))) 0) = Some scenario_segment0"
  "map_sum id (\<lambda>r. (h_Ngroups (fst r), h_TotNgroups (fst r), h_Nsubhalos (fst r), h_TotNsubhalos (fst r)))
     (read_header (scenario_segment0, 0) False) = Inr (3, 5, 5, 8)"
  "length scenario_segment0 = 772"
  by code_simp+

theorem catalog_init_rejects_split_groups_witness:
  "guess_format no_snapshot scenario_fs [] (SnapStr ''000'') = Inr (2, 1, False) \<and>
   map_sum id (\<lambda>r. (h_Ngroups (fst r), h_TotNgroups (fst r), h_Nsubhalos (fst r), h_TotNsubhalos (fst r)))
     (read_header (scenario_segment0, 0) False) = Inr (3, 5, 5, 8) \<and>
   catalog_init no_snapshot scenario_fs [] (SnapStr ''000'') False True False False = Inl ValueError"
proof -
  from scenario_facts(3) obtain h f1 where
    hdr: "read_header (scenario_segment0, 0) False = Inr (h, f1)"
    and h: "h_Ngroups h = 3" "h_TotNgroups h = 5"
    by (cases "read_header (scenario_segment0, 0) False") auto
  have "catalog_init no_snapshot scenario_fs [] (SnapStr ''000'') False True False False = Inl ValueError"
    by (rule catalog_init_rejects_split_groups [OF scenario_facts(1,2) hdr])
      (simp_all add: h scenario_facts(4))
  with scenario_facts show ?thesis
    by simp
qed

subsection \<open>Format discovery\<close>

text \<open>
  The constructor does not report the failure of discovery as such: its line 214
  subscripts the \<^verbatim>\<open>None\<close> it got back and raises \<^verbatim>\<open>TypeError\<close>, before the test on
  line 219.
\<close>

lemma catalog_init_undetected:
  "guess_format SI fs bd sn = Inl e \<Longrightarrow> returned_None e \<Longrightarrow>
   catalog_init SI fs bd sn li smt sov ct = Inl TypeError"
  by (simp add: catalog_init_def guess_format_SnapStr)

lemma catalog_init_raised:
  "guess_format SI fs bd sn = Inl e \<Longrightarrow> \<not> returned_None e \<Longrightarrow>
   catalog_init SI fs bd sn li smt sov ct = Inl e"
  by (simp add: catalog_init_def guess_format_SnapStr)

lemma read_number_existing:
  assumes "exists fs (seg fname 0)"
  shows "read_number fs fname off = Inl IndexError \<or> (\<exists>number. read_number fs fname off = Inr number)"
  using assms
  by (auto simp: read_number_def open_rb_def item0_def exists_def split: option.splits list.splits)

text \<open>
  Claim C5: format discovery probes the three path templates in the order old format,
  format 1, snapshot format; the first whose segment 0 exists is selected; and discovery
  fails with \<open>FormatNotFoundError\<close> when none of the three exists.

  The order and the selection hold. When segment 0 of the old format exists,
  \<^verbatim>\<open>guess_format\<close> returns format 0 with the number of segments of the old format, or
  fails on the header of that file, whatever else exists; when it does not and segment 0
  of format 1 exists, the same with format 1; when only segment 0 of the snapshot format
  exists, format 2 with the byte order of \<^verbatim>\<open>Snapshot.Init\<close>, or the failure to
  recognise it. \<^verbatim>\<open>guess_format\<close> reports "Subfind files not found" and returns
  \<^verbatim>\<open>None\<close> exactly when none of the three exists. The constructor, though, does not
  fail with that report: it subscripts the \<^verbatim>\<open>None\<close> on line 214, before its test on
  line 219, and raises \<^verbatim>\<open>TypeError\<close>.
\<close>

theorem format_discovery_priority:
  "((guess_format SI fs bd sn = Inl FormatNotFoundError) =
      (\<not> exists fs (seg (legacy_tab (add_slash bd) (snapnum_str sn)) 0) \<and>
       \<not> exists fs (seg (extended_tab (add_slash bd) (snapnum_str sn)) 0) \<and>
       \<not> exists fs (seg (snapshot_tab (add_slash bd) (snapnum_str sn)) 0))) \<and>
   (guess_format SI fs bd sn = Inl FormatNotFoundError \<longrightarrow>
      catalog_init SI fs bd sn li smt sov ct = Inl TypeError) \<and>
   (exists fs (seg (legacy_tab (add_slash bd) (snapnum_str sn)) 0) \<longrightarrow>
      guess_format SI fs bd sn =
        Inr (count_files fs (legacy_tab (add_slash bd) (snapnum_str sn)) 0, 0, False) \<or>
      guess_format SI fs bd sn =
        Inr (count_files fs (legacy_tab (add_slash bd) (snapnum_str sn)) 0, 0, True) \<or>
      guess_format SI fs bd sn = Inl UnrecognizedFormatError \<or>
      guess_format SI fs bd sn = Inl IndexError) \<and>
   (\<not> exists fs (seg (legacy_tab (add_slash bd) (snapnum_str sn)) 0) \<and>
    exists fs (seg (extended_tab (add_slash bd) (snapnum_str sn)) 0) \<longrightarrow>
      guess_format SI fs bd sn =
        Inr (count_files fs (extended_tab (add_slash bd) (snapnum_str sn)) 0, 1, False) \<or>
      guess_format SI fs bd sn =
        Inr (count_files fs (extended_tab (add_slash bd) (snapnum_str sn)) 0, 1, True) \<or>
      guess_format SI fs bd sn = Inl UnrecognizedFormatError \<or>
      guess_format SI fs bd sn = Inl IndexError) \<and>
   (\<not> exists fs (seg (legacy_tab (add_slash bd) (snapnum_str sn)) 0) \<and>
    \<not> exists fs (seg (extended_tab (add_slash bd) (snapnum_str sn)) 0) \<and>
    exists fs (seg (snapshot_tab (add_slash bd) (snapnum_str sn)) 0) \<longrightarrow>
      guess_format SI fs bd sn =
        (if fst (SI fs (add_slash bd @ ''groups_'' @ snapnum_str sn @ ''/sub'') (snapnum_str sn)) = - 99
         then Inl UnrecognizedFormatError
         else Inr (count_files fs (snapshot_tab (add_slash bd) (snapnum_str sn)) 0, 2,
                   snd (SI fs (add_slash bd @ ''groups_'' @ snapnum_str sn @ ''/sub'') (snapnum_str sn)))))"
proof -
  let ?L = "legacy_tab (add_slash bd) (snapnum_str sn)"
  let ?E = "extended_tab (add_slash bd) (snapnum_str sn)"
  let ?S = "snapshot_tab (add_slash bd) (snapnum_str sn)"
  have ty: "catalog_init SI fs bd sn li smt sov ct = Inl TypeError"
    if "guess_format SI fs bd sn = Inl FormatNotFoundError"
    using catalog_init_undetected [OF that] by (simp add: returned_None_def)
  consider (l) "exists fs (seg ?L 0)"
    | (e) "\<not> exists fs (seg ?L 0)" "exists fs (seg ?E 0)"
    | (s) "\<not> exists fs (seg ?L 0)" "\<not> exists fs (seg ?E 0)" "exists fs (seg ?S 0)"
    | (n) "\<not> exists fs (seg ?L 0)" "\<not> exists fs (seg ?E 0)" "\<not> exists fs (seg ?S 0)"
    by blast
  then show ?thesis
  proof cases
    case l
    then have p: "probe_templates fs (add_slash bd) (snapnum_str sn) = Inr (?L, 0)"
      by (simp add: probe_templates_def)
    from read_number_existing [OF l, of 12] have
      "guess_format SI fs bd sn = Inr (count_files fs ?L 0, 0, False) \<or>
       guess_format SI fs bd sn = Inr (count_files fs ?L 0, 0, True) \<or>
       guess_format SI fs bd sn = Inl UnrecognizedFormatError \<or>
       guess_format SI fs bd sn = Inl IndexError"
      by (auto simp: guess_format_def p Let_def split: if_splits)
    with l show ?thesis
      by auto
  next
    case e
    then have p: "probe_templates fs (add_slash bd) (snapnum_str sn) = Inr (?E, 1)"
      by (simp add: probe_templates_def)
    from read_number_existing [OF e(2), of 20] have
      "guess_format SI fs bd sn = Inr (count_files fs ?E 0, 1, False) \<or>
       guess_format SI fs bd sn = Inr (count_files fs ?E 0, 1, True) \<or>
       guess_format SI fs bd sn = Inl UnrecognizedFormatError \<or>
       guess_format SI fs bd sn = Inl IndexError"
      by (auto simp: guess_format_def p Let_def split: if_splits)
    with e show ?thesis
      by auto
  next
    case s
    then have p: "probe_templates fs (add_slash bd) (snapnum_str sn) = Inr (?S, 2)"
      by (simp add: probe_templates_def)
    have "guess_format SI fs bd sn =
        (if fst (SI fs (add_slash bd @ ''groups_'' @ snapnum_str sn @ ''/sub'') (snapnum_str sn)) = - 99
         then Inl UnrecognizedFormatError
         else Inr (count_files fs ?S 0, 2,
                   snd (SI fs (add_slash bd @ ''groups_'' @ snapnum_str sn @ ''/sub'') (snapnum_str sn))))"
      by (simp add: guess_format_def p Let_def)
    with s show ?thesis
      by auto
  next
    case n
    then have p: "probe_templates fs (add_slash bd) (snapnum_str sn) = Inl FormatNotFoundError"
      by (simp add: probe_templates_def)
    then have g: "guess_format SI fs bd sn = Inl FormatNotFoundError"
      by (simp add: guess_format_def Let_def)
    from n g ty [OF g] show ?thesis
      by simp
  qed
qed

text \<open>
  An empty directory: \<^verbatim>\<open>guess_format\<close> returns \<^verbatim>\<open>None\<close> and the constructor raises
  \<^verbatim>\<open>TypeError\<close>. With segment 0 of all three templates present the old format is
  selected, with those of the last two format 1, and with the last alone format 2.
\<close>

lemma three_fs_eval: "guess_format any_snapshot three_fs ''run'' (SnapInt 7) = Inr (1, 0, False)"
  by code_simp

lemma two_fs_eval: "guess_format any_snapshot two_fs ''run'' (SnapInt 7) = Inr (1, 1, False)"
  by code_simp

lemma one_fs_eval: "guess_format any_snapshot one_fs ''run'' (SnapInt 7) = Inr (1, 2, False)"
  by code_simp

lemma three_fs_ex:
  "exists three_fs (seg (legacy_tab (add_slash ''run'') (snapnum_str (SnapInt 7))) 0)"
  "exists three_fs (seg (extended_tab (add_slash ''run'') (snapnum_str (SnapInt 7))) 0)"
  "exists three_fs (seg (snapshot_tab (add_slash ''run'') (snapnum_str (SnapInt 7))) 0)"
  by code_simp+

lemma two_fs_ex:
  "\<not> exists two_fs (seg (legacy_tab (add_slash ''run'') (snapnum_str (SnapInt 7))) 0)"
  "exists two_fs (seg (extended_tab (add_slash ''run'') (snapnum_str (SnapInt 7))) 0)"
  "exists two_fs (seg (snapshot_tab (add_slash ''run'') (snapnum_str (SnapInt 7))) 0)"
  by code_simp+

lemma one_fs_ex:
  "\<not> exists one_fs (seg (legacy_tab (add_slash ''run'') (snapnum_str (SnapInt 7))) 0)"
  "\<not> exists one_fs (seg (extended_tab (add_slash ''run'') (snapnum_str (SnapInt 7))) 0)"
  "exists one_fs (seg (snapshot_tab (add_slash ''run'') (snapnum_str (SnapInt 7))) 0)"
  by code_simp+

lemma empty_ex: "\<not> exists [] p"
  by (simp add: exists_def)

theorem format_discovery_priority_witness:
  "(\<not> exists [] (seg (legacy_tab (add_slash ''run'') (snapnum_str (SnapInt 7))) 0) \<and>
    \<not> exists [] (seg (extended_tab (add_slash ''run'') (snapnum_str (SnapInt 7))) 0) \<and>
    \<not> exists [] (seg (snapshot_tab (add_slash ''run'') (snapnum_str (SnapInt 7))) 0) \<and>
    guess_format any_snapshot [] ''run'' (SnapInt 7) = Inl FormatNotFoundError \<and>
    catalog_init any_snapshot [] ''run'' (SnapInt 7) False True False False = Inl TypeError) \<and>
   (exists three_fs (seg (legacy_tab (add_slash ''run'') (snapnum_str (SnapInt 7))) 0) \<and>
    exists three_fs (seg (extended_tab (add_slash ''run'') (snapnum_str (SnapInt 7))) 0) \<and>
    exists three_fs (seg (snapshot_tab (add_slash ''run'') (snapnum_str (SnapInt 7))) 0) \<and>
    count_files three_fs (legacy_tab (add_slash ''run'') (snapnum_str (SnapInt 7))) 0 = 1 \<and>
    guess_format any_snapshot three_fs ''run'' (SnapInt 7) = Inr (1, 0, False)) \<and>
   (\<not> exists two_fs (seg (legacy_tab (add_slash ''run'') (snapnum_str (SnapInt 7))) 0) \<and>
    exists two_fs (seg (extended_tab (add_slash ''run'') (snapnum_str (SnapInt 7))) 0) \<and>
    exists two_fs (seg (snapshot_tab (add_slash ''run'') (snapnum_str (SnapInt 7))) 0) \<and>
    count_files two_fs (extended_tab (add_slash ''run'') (snapnum_str (SnapInt 7))) 0 = 1 \<and>
    guess_format any_snapshot two_fs ''run'' (SnapInt 7) = Inr (1, 1, False)) \<and>
   (\<not> exists one_fs (seg (legacy_tab (add_slash ''run'') (snapnum_str (SnapInt 7))) 0) \<and>
    \<not> exists one_fs (seg (extended_tab (add_slash ''run'') (snapnum_str (SnapInt 7))) 0) \<and>
    exists one_fs (seg (snapshot_tab (add_slash ''run'') (snapnum_str (SnapInt 7))) 0) \<and>
    count_files one_fs (snapshot_tab (add_slash ''run'') (snapnum_str (SnapInt 7))) 0 = 1 \<and>
    guess_format any_snapshot one_fs ''run'' (SnapInt 7) = Inr (1, 2, False))"
proof -
  note t0 = format_discovery_priority [of any_snapshot "[]" "''run''" "SnapInt 7" False True False False]
  note t3 = format_discovery_priority [of any_snapshot three_fs "''run''" "SnapInt 7" False True False False]
  note t2 = format_discovery_priority [of any_snapshot two_fs "''run''" "SnapInt 7" False True False False]
  note t1 = format_discovery_priority [of any_snapshot one_fs "''run''" "SnapInt 7" False True False False]
  have a: "guess_format any_snapshot [] ''run'' (SnapInt 7) = Inl FormatNotFoundError \<and>
           catalog_init any_snapshot [] ''run'' (SnapInt 7) False True False False = Inl TypeError"
    using t0 empty_ex by blast
  have b: "count_files three_fs (legacy_tab (add_slash ''run'') (snapnum_str (SnapInt 7))) 0 = 1"
    using t3 three_fs_ex three_fs_eval by auto
  have c: "count_files two_fs (extended_tab (add_slash ''run'') (snapnum_str (SnapInt 7))) 0 = 1"
    using t2 two_fs_ex two_fs_eval by auto
  have d: "count_files one_fs (snapshot_tab (add_slash ''run'') (snapnum_str (SnapInt 7))) 0 = 1"
    using t1 one_fs_ex one_fs_eval by (auto simp: any_snapshot_def)
  from a b c d empty_ex three_fs_ex two_fs_ex one_fs_ex three_fs_eval two_fs_eval one_fs_eval
  show ?thesis
    by simp
qed

lemma catalog_init_legacy:
  "guess_format SI fs bd sn = Inr (n, 0, sw) \<Longrightarrow> catalog_init SI fs bd sn li smt sov ct = Inl NameError"
  by (simp add: catalog_init_def guess_format_SnapStr)

subsection \<open>Byte-order detection\<close>

text \<open>
  What \<^verbatim>\<open>guess_format\<close> decides once the template is selected and the file count has
  been read from segment 0. For format 1 the unswapped and the swapped number are both
  compared with the number of segments found. For the old format the unswapped number
  is compared with the number of \<^verbatim>\<open>group_tab\<close> files instead.
\<close>

lemma guess_format_legacy:
  assumes "exists fs (seg (legacy_tab (add_slash bd) (snapnum_str sn)) 0)"
    and "read_number fs (legacy_tab (add_slash bd) (snapnum_str sn)) 12 = Inr number"
  shows "guess_format SI fs bd sn =
     (if le_nat number = count_files fs (group_tab (add_slash bd) (snapnum_str sn)) 0
      then Inr (count_files fs (legacy_tab (add_slash bd) (snapnum_str sn)) 0, 0, False)
      else if le_nat (rev number) = count_files fs (legacy_tab (add_slash bd) (snapnum_str sn)) 0
      then Inr (count_files fs (legacy_tab (add_slash bd) (snapnum_str sn)) 0, 0, True)
      else Inl UnrecognizedFormatError)"
  using assms by (simp add: guess_format_def probe_templates_def Let_def)

lemma guess_format_extended:
  assumes "\<not> exists fs (seg (legacy_tab (add_slash bd) (snapnum_str sn)) 0)"
    and "exists fs (seg (extended_tab (add_slash bd) (snapnum_str sn)) 0)"
    and "read_number fs (extended_tab (add_slash bd) (snapnum_str sn)) 20 = Inr number"
  shows "guess_format SI fs bd sn =
     (if le_nat number = count_files fs (extended_tab (add_slash bd) (snapnum_str sn)) 0
      then Inr (count_files fs (extended_tab (add_slash bd) (snapnum_str sn)) 0, 1, False)
      else if le_nat (rev number) = count_files fs (extended_tab (add_slash bd) (snapnum_str sn)) 0
      then Inr (count_files fs (extended_tab (add_slash bd) (snapnum_str sn)) 0, 1, True)
      else Inl UnrecognizedFormatError)"
  using assms by (simp add: guess_format_def probe_templates_def Let_def)

lemma legacy_fs_facts:
  "exists legacy_fs (seg (legacy_tab (add_slash []) (snapnum_str (SnapStr ''000''))) 0)"
  "read_number legacy_fs (legacy_tab (add_slash []) (snapnum_str (SnapStr ''000''))) 12 = Inr [1, 0, 0, 0]"
  "count_files legacy_fs (legacy_tab (add_slash []) (snapnum_str (SnapStr ''000''))) 0 = 1"
  "count_files legacy_fs (group_tab (add_slash []) (snapnum_str (SnapStr ''000''))) 0 = 0"
  by code_simp+

lemma legacy_fs_swapped_facts:
  "exists legacy_fs_swapped (seg (legacy_tab (add_slash []) (snapnum_str (SnapStr ''000''))) 0)"
  "read_number legacy_fs_swapped (legacy_tab (add_slash []) (snapnum_str (SnapStr ''000''))) 12 = Inr [0, 0, 0, 1]"
  "count_files legacy_fs_swapped (legacy_tab (add_slash []) (snapnum_str (SnapStr ''000''))) 0 = 1"
  "count_files legacy_fs_swapped (group_tab (add_slash []) (snapnum_str (SnapStr ''000''))) 0 = 0"
  by code_simp+

text \<open>
  Claim C2 has the unswapped file count compared with the number of segments found, a
  match giving native byte order. For the old format the code compares it with the
  number of \<^verbatim>\<open>group_tab\<close> files (line 128; the comment above the line says "this
  should be =nfiles"). On a catalog of the old format in one segment, in native order,
  with no \<^verbatim>\<open>group_tab\<close> file beside it, one segment is found, the field holds 1, and
  detection fails with \<open>UnrecognizedFormatError\<close>.
\<close>

theorem guess_format_legacy_native_rejected:
  "count_files legacy_fs (legacy_tab (add_slash []) (snapnum_str (SnapStr ''000''))) 0 = 1 \<and>
   map_sum id le_nat (read_number legacy_fs (legacy_tab (add_slash []) (snapnum_str (SnapStr ''000''))) 12)
     = Inr 1 \<and>
   guess_format no_snapshot legacy_fs [] (SnapStr ''000'') = Inl UnrecognizedFormatError"
  using guess_format_legacy [OF legacy_fs_facts(1,2), of no_snapshot]
  by (simp add: legacy_fs_facts)

text \<open>
  Claim C4 has a byte-swapped copy of a catalog read to the same arrays and totals as the
  original, for every format. For the old format the comparison above breaks the
  symmetry: the catalog of the previous theorem is rejected by detection (and the
  constructor raises \<^verbatim>\<open>TypeError\<close>), while its byte-swapped copy is detected as
  swapped (and the constructor then raises \<^verbatim>\<open>NameError\<close> on line 247, as it does for
  every catalog of the old format).
\<close>

theorem legacy_swapped_copy_differs:
  "guess_format no_snapshot legacy_fs [] (SnapStr ''000'') = Inl UnrecognizedFormatError \<and>
   guess_format no_snapshot legacy_fs_swapped [] (SnapStr ''000'') = Inr (1, 0, True) \<and>
   catalog_init no_snapshot legacy_fs [] (SnapStr ''000'') False True False False = Inl TypeError \<and>
   catalog_init no_snapshot legacy_fs_swapped [] (SnapStr ''000'') False True False False = Inl NameError"
proof -
  have a: "guess_format no_snapshot legacy_fs [] (SnapStr ''000'') = Inl UnrecognizedFormatError"
    using guess_format_legacy [OF legacy_fs_facts(1,2), of no_snapshot]
    by (simp add: legacy_fs_facts)
  have b: "guess_format no_snapshot legacy_fs_swapped [] (SnapStr ''000'') = Inr (1, 0, True)"
    using guess_format_legacy [OF legacy_fs_swapped_facts(1,2), of no_snapshot]
    by (simp add: legacy_fs_swapped_facts)
  from a b catalog_init_undetected [OF a] catalog_init_legacy [OF b] show ?thesis
    by (simp add: returned_None_def)
qed

subsection \<open>The snapshot format\<close>

text \<open>
  Claim C10: when the format discovered is 2 (only the snapshot template has a segment
  0, and \<^verbatim>\<open>Snapshot.Init\<close> recognises the file), the constructor returns at once, with
  no exception; the object has \<^verbatim>\<open>myformat\<close> and \<^verbatim>\<open>swap\<close> and no other attribute: no
  totals, no arrays.
\<close>

theorem catalog_init_snapshot_format:
  assumes "\<not> exists fs (seg (legacy_tab (add_slash bd) (snapnum_str sn)) 0)"
    and "\<not> exists fs (seg (extended_tab (add_slash bd) (snapnum_str sn)) 0)"
    and "exists fs (seg (snapshot_tab (add_slash bd) (snapnum_str sn)) 0)"
    and "fst (SI fs (add_slash bd @ ''groups_'' @ snapnum_str sn @ ''/sub'') (snapnum_str sn)) \<noteq> - 99"
  shows "catalog_init SI fs bd sn li smt sov ct =
     Inr \<lparr>myformat = 2,
          swap = snd (SI fs (add_slash bd @ ''groups_'' @ snapnum_str sn @ ''/sub'') (snapnum_str sn)),
          snapnum = None, basedir = None, Nfiles = None, long_IDs = None, id_format = None,
          TotNgroups = None, TotNids = None, TotNsubhalos = None, arrays = [], GroupIDs = None\<rparr>"
proof -
  have "guess_format SI fs bd sn =
      Inr (count_files fs (snapshot_tab (add_slash bd) (snapnum_str sn)) 0, 2,
           snd (SI fs (add_slash bd @ ''groups_'' @ snapnum_str sn @ ''/sub'') (snapnum_str sn)))"
    using assms by (simp add: guess_format_def probe_templates_def Let_def)
  then show ?thesis
    by (simp add: catalog_init_def guess_format_SnapStr new_object_def Let_def)
qed

lemma sub_only_facts:
  "\<not> exists sub_only_fs (seg (legacy_tab (add_slash []) (snapnum_str (SnapInt 0))) 0)"
  "\<not> exists sub_only_fs (seg (extended_tab (add_slash []) (snapnum_str (SnapInt 0))) 0)"
  "exists sub_only_fs (seg (snapshot_tab (add_slash []) (snapnum_str (SnapInt 0))) 0)"
  by code_simp+

theorem catalog_init_snapshot_format_witness:
  "catalog_init any_snapshot sub_only_fs [] (SnapInt 0) False True False False =
     Inr \<lparr>myformat = 2, swap = False,
          snapnum = None, basedir = None, Nfiles = None, long_IDs = None, id_format = None,
          TotNgroups = None, TotNids = None, TotNsubhalos = None, arrays = [], GroupIDs = None\<rparr>"
  using catalog_init_snapshot_format [OF sub_only_facts, of any_snapshot False True False False]
  by (simp add: any_snapshot_def)

subsection \<open>The running offsets of the constructor's loop\<close>

text \<open>
  Each pass of the loop adds the segment's \<^verbatim>\<open>Ngroups\<close> to \<^verbatim>\<open>skipG\<close> and its
  \<^verbatim>\<open>Nsubhalos\<close> to \<^verbatim>\<open>skipS\<close> (lines 399 and 400), in 32-bit arithmetic. So after the
  segments \<open>0, \<dots>, k - 1\<close> of a catalog of format 1 have been processed, the two offsets
  are the sums of the per-segment counts, wrapped to 32 bits; and the loop of the
  constructor is \<open>nfiles\<close> such passes.
\<close>

lemma wrap_i32_add: "wrap_i32 (wrap_i32 a + b) = wrap_i32 (a + b)"
proof -
  have "wrap_i32 a + b + 2 ^ 31 = (a + 2 ^ 31) mod 2 ^ 32 + b"
    by (simp add: wrap_i32_def)
  then have "(wrap_i32 a + b + 2 ^ 31) mod 2 ^ 32 = ((a + 2 ^ 31) mod 2 ^ 32 + b) mod 2 ^ 32"
    by (rule arg_cong)
  also have "\<dots> = (a + 2 ^ 31 + b) mod 2 ^ 32"
    by (rule mod_add_left_eq)
  also have "a + 2 ^ 31 + b = a + b + 2 ^ 31"
    by (simp only: ac_simps)
  finally show ?thesis
    unfolding wrap_i32_def [of "wrap_i32 a + b"] wrap_i32_def [of "a + b"] by (rule arg_cong)
qed

lemma wrap_u32_add: "wrap_u32 (wrap_u32 a + b) = wrap_u32 (a + b)"
  by (simp add: wrap_u32_def mod_add_left_eq)

lemma tab_segment_offsets:
  assumes "tab_segment cfg st f = Inr st'"
  shows "\<exists>h f1. read_header f (swap (self st)) = Inr (h, f1) \<and>
           skipG st' = wrap_i32 (skipG st + h_Ngroups h) \<and>
           skipS st' = wrap_u32 (skipS st + int (h_Nsubhalos h)) \<and>
           swap (self st') = swap (self st)"
proof -
  from assms obtain h f1 where hdr: "read_header f (swap (self st)) = Inr (h, f1)"
    unfolding tab_segment_def by (cases "read_header f (swap (self st))") auto
  with assms have "skipG st' = wrap_i32 (skipG st + h_Ngroups h) \<and>
           skipS st' = wrap_u32 (skipS st + int (h_Nsubhalos h)) \<and>
           swap (self st') = swap (self st)"
    unfolding tab_segment_def Let_def
    by (auto split: option.splits sum.splits if_splits prod.splits)
  with hdr show ?thesis by blast
qed

lemma tab_step_offsets:
  assumes "tab_step cfg st = Inr st'"
  shows "fnb st' = Suc (fnb st) \<and> swap (self st') = swap (self st) \<and>
         skipG st' = wrap_i32 (skipG st + segment_Ngroups cfg (swap (self st)) (fnb st)) \<and>
         skipS st' = wrap_u32 (skipS st + segment_Nsubhalos cfg (swap (self st)) (fnb st))"
proof -
  from assms obtain f where op: "open_rb (cfg_fs cfg) (seg (cfg_fname cfg) (fnb st)) = Inr f"
    unfolding tab_step_def by (cases "open_rb (cfg_fs cfg) (seg (cfg_fname cfg) (fnb st))") auto
  with assms obtain st1 where sg: "tab_segment cfg st f = Inr st1" and st': "st' = st1\<lparr>fnb := Suc (fnb st)\<rparr>"
    unfolding tab_step_def by (cases "tab_segment cfg st f") auto
  from tab_segment_offsets [OF sg] obtain h f1 where
    "read_header f (swap (self st)) = Inr (h, f1)"
    "skipG st1 = wrap_i32 (skipG st + h_Ngroups h)"
    "skipS st1 = wrap_u32 (skipS st + int (h_Nsubhalos h))"
    "swap (self st1) = swap (self st)"
    by blast
  with op st' show ?thesis
    by (simp add: segment_Ngroups_def segment_Nsubhalos_def segment_header_def)
qed

lemma tab_iter_offsets:
  assumes "tab_iter cfg k st0 = Inr st" and "fnb st0 = 0" and "skipG st0 = 0" and "skipS st0 = 0"
  shows "fnb st = k \<and> swap (self st) = swap (self st0) \<and>
         skipG st = wrap_i32 (\<Sum>i<k. segment_Ngroups cfg (swap (self st0)) i) \<and>
         skipS st = wrap_u32 (\<Sum>i<k. segment_Nsubhalos cfg (swap (self st0)) i)"
  using assms(1)
proof (induction k arbitrary: st)
  case 0
  with assms(2-4) show ?case
    by (simp add: wrap_i32_def wrap_u32_def)
next
  case (Suc k)
  from Suc.prems obtain st1 where it: "tab_iter cfg k st0 = Inr st1" and stp: "tab_step cfg st1 = Inr st"
    by (cases "tab_iter cfg k st0") auto
  from Suc.IH [OF it] tab_step_offsets [OF stp] show ?case
    by (simp add: wrap_i32_add wrap_u32_add)
qed

lemma tab_iter_front:
  "tab_iter cfg (Suc k) st =
     (case tab_step cfg st of Inl e \<Rightarrow> Inl e | Inr st' \<Rightarrow> tab_iter cfg k st')"
proof (induction k)
  case 0
  show ?case by (simp split: sum.splits)
next
  case (Suc k)
  show ?case
    by (subst tab_iter.simps(2), subst Suc) (simp split: sum.splits)
qed

lemma tab_loop_iter:
  assumes "fnb st < cfg_nfiles cfg"
  shows "tab_loop cfg st = tab_iter cfg (cfg_nfiles cfg - fnb st) st"
  using assms
proof (induction "cfg_nfiles cfg - fnb st" arbitrary: st)
  case 0
  then show ?case by simp
next
  case (Suc d)
  from Suc.hyps(2) have n: "cfg_nfiles cfg - fnb st = Suc d" by simp
  show ?case
  proof (cases "tab_step cfg st")
    case (Inl e)
    then show ?thesis
      by (subst tab_loop.simps) (simp add: n tab_iter_front del: tab_iter.simps)
  next
    case (Inr st')
    from tab_step_Inr(2) [OF Inr] have f: "fnb st' = Suc (fnb st)" .
    show ?thesis
    proof (cases "fnb st' = cfg_nfiles cfg")
      case True
      with f n have "d = 0" by simp
      with Inr True show ?thesis
        by (subst tab_loop.simps) (simp add: n tab_iter_front del: tab_iter.simps(2))
    next
      case False
      with f Suc.prems n have d: "d = cfg_nfiles cfg - fnb st'" and lt: "fnb st' < cfg_nfiles cfg"
        by simp_all
      from Suc.hyps(1) [OF d lt] have "tab_loop cfg st' = tab_iter cfg d st'"
        by (simp add: d)
      with Inr False n show ?thesis
        by (subst tab_loop.simps) (simp add: tab_iter_front del: tab_iter.simps)
    qed
  qed
qed

lemma catalog_init_extended:
  assumes gf: "guess_format SI fs bd sn = Inr (n, 1, sw)" and n: "0 < n"
  shows "catalog_init SI fs bd sn li smt sov ct =
     map_sum id self (tab_iter (loop_config fs bd sn n smt sov ct) n (loop_start bd sn n sw li))"
proof -
  have "tab_loop (loop_config fs bd sn n smt sov ct) (loop_start bd sn n sw li) =
      tab_iter (loop_config fs bd sn n smt sov ct) n (loop_start bd sn n sw li)"
    using n tab_loop_iter [of "loop_start bd sn n sw li" "loop_config fs bd sn n smt sov ct"]
    by (simp add: loop_config_def loop_start_def)
  then show ?thesis
    using gf
    by (simp add: catalog_init_def guess_format_SnapStr Let_def loop_config_def loop_start_def
        split: sum.splits)
qed

text \<open>
  An example: the small catalog in two segments, the first without groups. Both passes
  succeed, the offsets end at \<open>0 + 1\<close>, and the object has the totals of the header and 28
  arrays of one item each, all written.
\<close>

lemma late_fs_facts:
  "guess_format no_snapshot late_fs [] (SnapStr ''000'') = Inr (2, 1, False)"
  "map_sum id
     (\<lambda>st. (fnb st, skipG st, skipS st, myformat (self st), basedir (self st), snapnum (self st),
            TotNgroups (self st), TotNids (self st), TotNsubhalos (self st), GroupIDs (self st),
            length (arrays (self st)),
            list_all (\<lambda>a. length (snd a) = 1 \<and> list_all (\<lambda>x. x \<noteq> None) (snd a)) (arrays (self st))))
     (tab_iter (loop_config late_fs [] (SnapStr ''000'') 2 True False False) 2
        (loop_start [] (SnapStr ''000'') 2 False False))
   = Inr (2, 1, 1, 1, Some [], Some ''000'', Some 1, Some 1, Some 1, None, 28, True)"
  "exists late_fs ([] @ ''groups_'' @ ''000'' @ ''/subhalo_ids_'' @ ''000'' @ ''.'' @ dec 0)"
  "(case map_of late_fs ''groups_000/subhalo_ids_000.0'' of
      None \<Rightarrow> None
    | Some b \<Rightarrow> Some (map_sum id (\<lambda>r. h_TotNgroups (fst r)) (read_header (b, 0) False)))
   = Some (Inr 2)"
  by code_simp+

lemma late_fs_offsets:
  "\<exists>st. tab_iter (loop_config late_fs [] (SnapStr ''000'') 2 True False False) 2
          (loop_start [] (SnapStr ''000'') 2 False False) = Inr st \<and>
        skipG st = wrap_i32 (\<Sum>i<2. segment_Ngroups
                     (loop_config late_fs [] (SnapStr ''000'') 2 True False False) False i) \<and>
        skipG st = 1 \<and> skipS st = 1"
proof -
  from late_fs_facts(2) obtain st where
    it: "tab_iter (loop_config late_fs [] (SnapStr ''000'') 2 True False False) 2
          (loop_start [] (SnapStr ''000'') 2 False False) = Inr st"
    and v: "skipG st = 1" "skipS st = 1"
    by (cases "tab_iter (loop_config late_fs [] (SnapStr ''000'') 2 True False False) 2
          (loop_start [] (SnapStr ''000'') 2 False False)") auto
  from tab_iter_offsets [OF it] v it show ?thesis
    by (auto simp: loop_start_def new_object_def)
qed

subsection \<open>The particle-ID reader\<close>

text \<open>
  Claim C3 has \<^verbatim>\<open>read_IDs\<close> raise \<open>CatalogInconsistencyError\<close>, with no identifiers
  committed, when a file of identifiers reports totals that differ from the catalog's.
  The comparison (lines 446 to 452) is never reached: on a catalog of format 1 whose
  first file of identifiers exists, \<^verbatim>\<open>read_IDs\<close> raises \<^verbatim>\<open>TypeError\<close> at the first read
  of the header, where \<^verbatim>\<open>myswap\<close> is called without its flag, and leaves the object as
  it was.
\<close>

theorem read_IDs_raises_TypeError:
  assumes "myformat c = 1" and "basedir c = Some b" and "snapnum c = Some s"
    and "exists fs (b @ ''groups_'' @ s @ ''/subhalo_ids_'' @ s @ ''.'' @ dec 0)"
  shows "read_IDs fs c = (Some TypeError, c)"
  using assms
  by (auto simp: read_IDs_def ids_fname_def open_rb_def exists_def myswap_one_argument_def)

text \<open>
  The small catalog above, opened by the constructor, has 1 group in total and no
  \<^verbatim>\<open>GroupIDs\<close>; the header of its file of identifiers reports 2 groups; and
  \<^verbatim>\<open>read_IDs\<close> raises \<^verbatim>\<open>TypeError\<close>.
\<close>

theorem read_IDs_raises_TypeError_witness:
  "(case catalog_init no_snapshot late_fs [] (SnapStr ''000'') False True False False of
      Inl e \<Rightarrow> False
    | Inr c \<Rightarrow> TotNgroups c = Some 1 \<and> GroupIDs c = None \<and>
               read_IDs late_fs c = (Some TypeError, c)) \<and>
   (case map_of late_fs ''groups_000/subhalo_ids_000.0'' of
      None \<Rightarrow> None
    | Some b \<Rightarrow> Some (map_sum id (\<lambda>r. h_TotNgroups (fst r)) (read_header (b, 0) False)))
   = Some (Inr 2)"
proof -
  let ?it = "tab_iter (loop_config late_fs [] (SnapStr ''000'') 2 True False False) 2
          (loop_start [] (SnapStr ''000'') 2 False False)"
  from late_fs_facts(2) obtain st where it: "?it = Inr st"
    and v: "myformat (self st) = 1" "basedir (self st) = Some []" "snapnum (self st) = Some ''000''"
      "TotNgroups (self st) = Some 1" "GroupIDs (self st) = None"
    by (cases ?it) auto
  have c: "catalog_init no_snapshot late_fs [] (SnapStr ''000'') False True False False = Inr (self st)"
    using catalog_init_extended [OF late_fs_facts(1), of False True False False] it by simp
  from read_IDs_raises_TypeError [OF v(1,2,3) late_fs_facts(3)] c v late_fs_facts(4)
  show ?thesis
    by simp
qed

text \<open>
  Claim C6 has the running group, subhalo and ID offsets equal to the sums of the
  per-segment counts after each segment. The group and subhalo offsets of format 1 do
  (lemma \<open>tab_iter_offsets\<close>). The ID offset is kept by \<^verbatim>\<open>read_IDs\<close> (lines 474 and
  475), and \<^verbatim>\<open>read_IDs\<close> processes no segment: whatever the catalog and the files, the
  call ends with an exception, which is never the report of an inconsistency, and the
  object is as it was before the call, so no identifier is stored and no offset advanced.
\<close>

theorem read_IDs_never_completes:
  "fst (read_IDs fs c) \<noteq> None \<and> fst (read_IDs fs c) \<noteq> Some CatalogInconsistencyError \<and>
   snd (read_IDs fs c) = c"
  by (auto simp: read_IDs_def ids_fname_def open_rb_def myswap_one_argument_def
      split: sum.splits option.splits if_splits)

section \<open>Properties of the light-cone pipeline\<close>

subsection \<open>The divisibility check\<close>

text \<open>
  Claim C8: when the number of particles is not a multiple of the number of processes,
  the run is rejected before any partition or collective operation. Every process
  aborts the group as its first operation on the communicator: the trace gains
  \<open>Abort\<close> and nothing else (no broadcast, no scatter, no send, receive or barrier), and
  the maps on disk are untouched. The number of particles is the \<^verbatim>\<open>nparticles\<close> of the
  parameters, which is what line 23 tests.
\<close>

theorem pipeline_rejects_uneven_partition:
  assumes "0 < nprocs" and "\<not> int nprocs dvd nparticles env"
  shows "pipeline env nprocs rank w = Inr (w\<lparr>trace := trace w @ [Abort]\<rparr>)"
  using assms by (simp add: pipeline_def dvd_eq_mod_eq_0)

theorem pipeline_rejects_uneven_partition_witness:
  "\<not> int 3 dvd nparticles demo_env \<and>
   pipeline demo_env 3 0 empty_world = Inr \<lparr>disk = (\<lambda>k. None), trace = [Abort]\<rparr> \<and>
   pipeline demo_env 3 2 empty_world = Inr \<lparr>disk = (\<lambda>k. None), trace = [Abort]\<rparr>"
proof -
  have d: "\<not> int 3 dvd nparticles demo_env"
    by (simp add: demo_env_def)
  have p: "(0::nat) < 3" by simp
  from pipeline_rejects_uneven_partition [OF p d, of 0 empty_world]
       pipeline_rejects_uneven_partition [OF p d, of 2 empty_world] d
  show ?thesis by (simp add: empty_world_def)
qed

subsection \<open>The accretion filter\<close>

lemma getSky_masked: "getSkyCoordinates pos p (- 1) = (- 1, - 1, - 1)"
  by (simp add: getSkyCoordinates_def)

text \<open>
  Claim C7: a particle whose accretion redshift is higher than the crossing redshift
  computed for it is masked with the sentinel \<open>- 1\<close> and adds nothing to the shell's
  histogram: the collector's map after a slice with the particle is the map after the
  slice without it. (Scenario: accretion redshift 5, crossing redshift 3.)
\<close>

theorem accretion_filter_excludes:
  assumes "crossing_redshift (crossing_a env sh rep p) = Some z" and "z < Zacc env p"
  shows "mask_accretion (crossing_a env sh rep p) (Zacc env p) = - 1 \<and>
         collect_slice (npixels env) (ang2pix env) (worker_skycoords env sh rep (ps @ p # qs)) deltai =
         collect_slice (npixels env) (ang2pix env) (worker_skycoords env sh rep (ps @ qs)) deltai"
proof -
  from assms have m: "mask_accretion (crossing_a env sh rep p) (Zacc env p) = - 1"
    by (simp add: mask_accretion_def)
  then show ?thesis
    by (simp add: collect_slice_def worker_skycoords_def getSky_masked)
qed

text \<open>
  The scenario: particle 1 of the example crosses at redshift 3 and has accretion
  redshift 5. The slice of particles 0 and 1 gives the histogram of particle 0 alone.
\<close>

theorem accretion_filter_excludes_witness:
  "crossing_redshift (crossing_a demo_env (0, 1 / 2) () 1) = Some 3 \<and> Zacc demo_env 1 = 5 \<and>
   mask_accretion (crossing_a demo_env (0, 1 / 2) () 1) (Zacc demo_env 1) = - 1 \<and>
   collect_slice 4 (ang2pix demo_env) (worker_skycoords demo_env (0, 1 / 2) () [0, 1]) [0, 0, 0, 0] =
   collect_slice 4 (ang2pix demo_env) (worker_skycoords demo_env (0, 1 / 2) () [0]) [0, 0, 0, 0] \<and>
   collect_slice 4 (ang2pix demo_env) (worker_skycoords demo_env (0, 1 / 2) () [0]) [0, 0, 0, 0] = Inr [1, 0, 0, 0]"
proof -
  have c: "crossing_redshift (crossing_a demo_env (0, 1 / 2) () 1) = Some 3"
    by (simp add: demo_env_def crossing_redshift_def)
  have z: "(3::real) < Zacc demo_env 1"
    by (simp add: demo_env_def)
  have e: "collect_slice 4 (ang2pix demo_env) (worker_skycoords demo_env (0, 1 / 2) () [0]) [0, 0, 0, 0] = Inr [1, 0, 0, 0]"
    by (simp add: demo_env_def collect_slice_def worker_skycoords_def getSkyCoordinates_def
        mask_accretion_def crossing_redshift_def histogram_def in_bin_def add_counts_def upt_rec)
  from accretion_filter_excludes [OF c z, of "[0]" "[]" "[0, 0, 0, 0]"] c e show ?thesis
    by (simp add: demo_env_def)
qed

subsection \<open>The map of a shell across snapshots\<close>












text \<open>
  A tie goes to the even multiple: the shells with middles 0.03125 and 0.0312 have the
  file \<^verbatim>\<open>0.0312\<close> between them.
\<close>

lemma tie_keys: "shell_key tie_shell_a = (False, 312)" "shell_key tie_shell_b = (False, 312)"
  by (simp_all add: shell_key_def tie_shell_a_def tie_shell_b_def round_half_even_def Let_def)









end
